theory Spec2Isabelle
  imports Main "HOL-Library.Sublist"
begin

section \<open>Python text\<close>

text \<open>
  A Python \<^verbatim>\<open>str\<close> is a sequence of Unicode code points, so it is modelled as a list of
  code points.  \<open>lit\<close> reads an ASCII literal of the source.
\<close>

type_synonym pystr = "nat list"

definition lit :: "string \<Rightarrow> pystr" where
  "lit s = map of_char s"

text \<open>
  The characters that \<^verbatim>\<open>str.strip()\<close> removes when it is called without an argument: the
  code points for which \<^verbatim>\<open>str.isspace()\<close> holds (tab to carriage return, the four
  separators U+001C..U+001F, space, NEL, no-break space and the Unicode space separators).
\<close>

definition is_space :: "nat \<Rightarrow> bool" where
  "is_space c \<longleftrightarrow>
     (9 \<le> c \<and> c \<le> 13) \<or> (28 \<le> c \<and> c \<le> 32) \<or> c = 133 \<or> c = 160 \<or> c = 5760 \<or>
     (8192 \<le> c \<and> c \<le> 8202) \<or> c = 8232 \<or> c = 8233 \<or> c = 8239 \<or> c = 8287 \<or> c = 12288"

text \<open>\<^verbatim>\<open>s.strip()\<close>: drop the leading and the trailing run of whitespace.\<close>

definition py_strip :: "pystr \<Rightarrow> pystr" where
  "py_strip s = rev (dropWhile is_space (rev (dropWhile is_space s)))"

text \<open>
  \<^verbatim>\<open>s.replace(old, new)\<close>: every occurrence of \<open>old\<close>, found from left to right without
  overlap, is replaced by \<open>new\<close>.  With an empty \<open>old\<close> Python inserts \<open>new\<close> before every
  character and at the end.
\<close>

fun py_replace :: "pystr \<Rightarrow> pystr \<Rightarrow> pystr \<Rightarrow> pystr" where
  "py_replace old new [] = (if old = [] then new else [])"
| "py_replace old new (c # s) =
     (if old = [] then new @ c # py_replace old new s
      else if prefix old (c # s) then new @ py_replace old new (drop (length old) (c # s))
      else c # py_replace old new s)"

text \<open>\<^verbatim>\<open>sep.join(parts)\<close>.\<close>

fun py_join :: "pystr \<Rightarrow> pystr list \<Rightarrow> pystr" where
  "py_join sep [] = []"
| "py_join sep [x] = x"
| "py_join sep (x # y # ys) = x @ sep @ py_join sep (y # ys)"

section \<open>Validator and code extractor (main.py)\<close>

text \<open>
  \<^verbatim>\<open>def validate_solution(actual_output, expected_output):
      return actual_output.strip() == expected_output.strip()\<close>
\<close>

definition validate_solution :: "pystr \<Rightarrow> pystr \<Rightarrow> bool" where
  "validate_solution actual_output expected_output \<longleftrightarrow>
     py_strip actual_output = py_strip expected_output"

definition fence_python :: pystr where
  "fence_python = lit ''```python''"

definition fence :: pystr where
  "fence = lit ''```''"

text \<open>
  \<^verbatim>\<open>clean_code = code_response.strip().replace("```python", "").replace("```", "").strip()\<close>
\<close>

definition extract_code :: "pystr \<Rightarrow> pystr" where
  "extract_code code_response =
     py_strip (py_replace fence [] (py_replace fence_python [] (py_strip code_response)))"

text \<open>
  A text is \<open>trimmed\<close> when it is empty or neither begins nor ends with whitespace.
\<close>

definition trimmed :: "pystr \<Rightarrow> bool" where
  "trimmed t \<longleftrightarrow> (case t of [] \<Rightarrow> True | c # _ \<Rightarrow> \<not> is_space c \<and> \<not> is_space (last t))"

section \<open>Problems and the outside world\<close>

text \<open>
  A Python value, as \<^verbatim>\<open>json.load\<close> returns it or as the content of a response: \<^verbatim>\<open>None\<close>
  (JSON \<^verbatim>\<open>null\<close>), a string, a list, a dictionary (a JSON object, from its keys to their
  values), and \<open>PAtom\<close> for every other value (a number, a boolean), which the program
  only ever passes to \<^verbatim>\<open>str()\<close>.
\<close>

datatype pyval =
    PNone
  | PStr pystr
  | PList "pyval list"
  | PAtom nat
  | PDict "pystr \<Rightarrow> pyval option"

text \<open>
  A problem that is a dictionary.  The loader appends whatever \<^verbatim>\<open>json.load\<close> returns, so
  an element of \<^verbatim>\<open>problems\<close> is any \<open>pyval\<close>; only \<open>PDict problem\<close> has the method
  \<^verbatim>\<open>get\<close>.
\<close>

type_synonym problem = "pystr \<rightharpoonup> pyval"

text \<open>\<^verbatim>\<open>d.get(key)\<close> and \<^verbatim>\<open>d.get(key, default)\<close>.\<close>

definition dict_get :: "problem \<Rightarrow> pystr \<Rightarrow> pyval" where
  "dict_get d k = (case d k of None \<Rightarrow> PNone | Some v \<Rightarrow> v)"

definition dict_get_default :: "problem \<Rightarrow> pystr \<Rightarrow> pyval \<Rightarrow> pyval" where
  "dict_get_default d k dflt = (case d k of None \<Rightarrow> dflt | Some v \<Rightarrow> v)"

text \<open>
  The exceptions of a run, all subclasses of \<^verbatim>\<open>Exception\<close>: \<^verbatim>\<open>IOError\<close> (an alias of
  \<^verbatim>\<open>OSError\<close>), \<^verbatim>\<open>json.JSONDecodeError\<close>, \<^verbatim>\<open>subprocess.TimeoutExpired\<close>, which carries
  the output captured before the child was killed, \<^verbatim>\<open>AttributeError\<close> (a method called on
  a value that does not have it), \<^verbatim>\<open>UnicodeEncodeError\<close> (a text that standard output
  cannot encode), and any other exception.
\<close>

datatype exn =
    IOError
  | JSONDecodeError
  | TimeoutExpired pystr pystr
  | AttributeError
  | UnicodeEncodeError
  | OtherException

text \<open>
  Everything the program asks of its environment.  Each field stands for one call of the
  source and returns what that call returns or raises:
  \<^item> \<open>llm_invoke i attempt query\<close>: \<^verbatim>\<open>llm.invoke([...]).content\<close> for problem index \<open>i\<close>
    at retry \<open>attempt\<close>, which is any Python value;
  \<^item> \<open>print_text s\<close>: \<^verbatim>\<open>print(clean_code)\<close>, the one \<^verbatim>\<open>print\<close> of text from the generation
    service outside every \<^verbatim>\<open>try\<close>; \<open>None\<close> when nothing is raised;
  \<^item> \<open>write_solution n code\<close>: \<^verbatim>\<open>os.makedirs\<close>, \<^verbatim>\<open>open\<close> and \<^verbatim>\<open>f.write\<close> on
    \<^verbatim>\<open>./solutions/solution_<n>.py\<close>; \<open>None\<close> when nothing is raised;
  \<^item> \<open>run_solution n input timeout\<close>: \<^verbatim>\<open>subprocess.run(["python", path], input=...,
    capture_output=True, text=True, timeout=...)\<close>, with the captured standard output and
    standard error of the finished child;
  \<^item> \<open>repr_of\<close>: \<^verbatim>\<open>str(v)\<close> for a value that is not a string;
  \<^item> \<open>is_dir\<close>, \<open>glob_json\<close>, \<open>json_load\<close>: \<^verbatim>\<open>Path.is_dir\<close>, \<^verbatim>\<open>Path.glob("*.json")\<close>,
    and \<^verbatim>\<open>open\<close> followed by \<^verbatim>\<open>json.load\<close>, which returns the value the file holds,
    a dictionary or not.
\<close>

record env =
  llm_invoke :: "nat \<Rightarrow> nat \<Rightarrow> pyval \<Rightarrow> exn + pyval"
  print_text :: "pystr \<Rightarrow> exn option"
  write_solution :: "nat \<Rightarrow> pystr \<Rightarrow> exn option"
  run_solution :: "nat \<Rightarrow> pystr option \<Rightarrow> nat \<Rightarrow> exn + (pystr \<times> pystr)"
  repr_of :: "pyval \<Rightarrow> pystr"
  is_dir :: "pystr \<Rightarrow> bool"
  glob_json :: "pystr \<Rightarrow> pystr list"
  json_load :: "pystr \<Rightarrow> exn + pyval"

text \<open>\<^verbatim>\<open>str(v)\<close>: the identity on a string.\<close>

definition py_str :: "env \<Rightarrow> pyval \<Rightarrow> pystr" where
  "py_str e v = (case v of PStr s \<Rightarrow> s | _ \<Rightarrow> repr_of e v)"

text \<open>
  What the program does that can be observed, in order: one constructor for each
  \<^verbatim>\<open>print\<close> statement (or block of consecutive ones), carrying the values formatted into
  it, and one for each call that reaches outside the process.
\<close>

datatype event =
    PrintMissingArgument
  | PrintUsage
  | PrintLoading pystr
  | PrintNotADirectory pystr
  | PrintLoaderWarning pystr exn
  | PrintFound nat
  | PrintEstimated nat
  | PrintRule
  | PrintProcessing nat nat nat nat
  | LlmInvoke nat nat pyval
  | PrintApiError nat exn
  | PrintWaitingRetry nat
  | Sleep nat
  | PrintGiveUp nat nat
  | PrintGeneratedHeader nat
  | PrintGeneratedCode pystr
  | PrintGeneratedFooter
  | WriteSolution nat pystr
  | PrintWritten nat
  | RunSolution nat "pystr option" nat
  | PrintStderr nat pystr
  | PrintResultRuntimeError
  | PrintStdout nat pystr
  | PrintResult bool
  | PrintValidationSkipped
  | PrintWriteError nat exn
  | PrintTimedOut nat
  | PrintErrorOccurred nat exn
  | PrintWaitingNext
  | PrintSummary nat

section \<open>The loader (jsonLoader.py)\<close>

text \<open>
  The loop of \<^verbatim>\<open>parse_json_directory_to_dicts\<close> over the globbed files: a file that loads
  is appended, any exception is reported as a warning and the file is skipped.
\<close>

fun load_files :: "env \<Rightarrow> pystr list \<Rightarrow> pyval list \<Rightarrow> pyval list \<times> event list" where
  "load_files e [] all_file_dicts = (all_file_dicts, [])"
| "load_files e (file_path # rest) all_file_dicts =
     (case json_load e file_path of
        Inr data \<Rightarrow> load_files e rest (all_file_dicts @ [data])
      | Inl err \<Rightarrow>
          (let (ds, evs) = load_files e rest all_file_dicts
           in (ds, PrintLoaderWarning file_path err # evs)))"

definition parse_json_directory_to_dicts :: "env \<Rightarrow> pystr \<Rightarrow> pyval list \<times> event list" where
  "parse_json_directory_to_dicts e directory_path =
     (if \<not> is_dir e directory_path then ([], [PrintNotADirectory directory_path])
      else load_files e (glob_json e directory_path) [])"

section \<open>The per-problem pipeline (main.py)\<close>

definition max_retries :: nat where
  "max_retries = 3"

definition retry_delay :: nat where
  "retry_delay = 30"

text \<open>
  The retry loop \<^verbatim>\<open>for attempt in range(max_retries)\<close>, over the attempts still to come,
  threading \<^verbatim>\<open>code_response\<close>.  A successful call assigns the content and breaks; a
  failed one sleeps when \<^verbatim>\<open>attempt < max_retries - 1\<close> and otherwise reports that the
  problem is given up and assigns \<^verbatim>\<open>None\<close>.
\<close>

fun retry_loop ::
  "env \<Rightarrow> nat \<Rightarrow> nat \<Rightarrow> pyval \<Rightarrow> pyval \<Rightarrow> nat list \<Rightarrow> pyval \<times> event list" where
  "retry_loop e i n query code_response [] = (code_response, [])"
| "retry_loop e i n query code_response (attempt # rest) =
     (case llm_invoke e i attempt query of
        Inr content \<Rightarrow>
          (content,
           [PrintProcessing (i + 1) n (attempt + 1) max_retries, LlmInvoke i attempt query])
      | Inl err \<Rightarrow>
          (if int attempt < int max_retries - 1 then
             (let (r, evs) = retry_loop e i n query code_response rest
              in (r, [PrintProcessing (i + 1) n (attempt + 1) max_retries,
                      LlmInvoke i attempt query,
                      PrintApiError (attempt + 1) err,
                      PrintWaitingRetry retry_delay,
                      Sleep retry_delay] @ evs))
           else
             (let (r, evs) = retry_loop e i n query PNone rest
              in (r, [PrintProcessing (i + 1) n (attempt + 1) max_retries,
                      LlmInvoke i attempt query,
                      PrintApiError (attempt + 1) err,
                      PrintGiveUp (i + 1) max_retries] @ evs))))"

text \<open>The construction of \<^verbatim>\<open>input_data\<close> from the problem's \<^verbatim>\<open>test_input\<close>.\<close>

definition input_data_of :: "env \<Rightarrow> pyval \<Rightarrow> pystr option" where
  "input_data_of e test_input =
     (case test_input of
        PNone \<Rightarrow> None
      | PList args \<Rightarrow> Some (py_join (lit ''\<newline>'') (map (py_str e) args))
      | _ \<Rightarrow> Some (py_str e test_input))"

text \<open>
  The validation logic that follows \<^verbatim>\<open>subprocess.run\<close>, on the stripped standard output
  and standard error.
\<close>

definition validation_logic :: "env \<Rightarrow> nat \<Rightarrow> problem \<Rightarrow> pystr \<Rightarrow> pystr \<Rightarrow> event list" where
  "validation_logic e i problem stdout stderr =
     (if stderr \<noteq> [] then [PrintStderr (i + 1) stderr, PrintResultRuntimeError]
      else
        (if stdout \<noteq> [] then [PrintStdout (i + 1) stdout] else []) @
        (let expected_output = dict_get problem (lit ''test_output'')
         in if expected_output \<noteq> PNone
            then [PrintResult (validate_solution stdout (py_str e expected_output))]
            else [PrintValidationSkipped]))"

text \<open>
  The body of the \<^verbatim>\<open>try\<close> block: the events it produces and the exception that ended
  it, if one did.
\<close>

definition try_body :: "env \<Rightarrow> nat \<Rightarrow> problem \<Rightarrow> pystr \<Rightarrow> event list \<times> exn option" where
  "try_body e i problem clean_code =
     (case write_solution e (i + 1) clean_code of
        Some err \<Rightarrow> ([WriteSolution (i + 1) clean_code], Some err)
      | None \<Rightarrow>
          (let input_data = input_data_of e (dict_get problem (lit ''test_input''))
           in case run_solution e (i + 1) input_data 10 of
                Inl err \<Rightarrow>
                  ([WriteSolution (i + 1) clean_code, PrintWritten (i + 1),
                    RunSolution (i + 1) input_data 10], Some err)
              | Inr (out, err) \<Rightarrow>
                  ([WriteSolution (i + 1) clean_code, PrintWritten (i + 1),
                    RunSolution (i + 1) input_data 10]
                   @ validation_logic e i problem (py_strip out) (py_strip err), None)))"

text \<open>
  The three \<^verbatim>\<open>except\<close> clauses, in the order of the source: \<^verbatim>\<open>IOError\<close>,
  \<^verbatim>\<open>subprocess.TimeoutExpired\<close>, \<^verbatim>\<open>Exception\<close>.  The result is what the whole
  \<^verbatim>\<open>try\<close> statement produces and the exception it lets through, if any.
\<close>

definition sandbox_step :: "env \<Rightarrow> nat \<Rightarrow> problem \<Rightarrow> pystr \<Rightarrow> event list \<times> exn option" where
  "sandbox_step e i problem clean_code =
     (case try_body e i problem clean_code of
        (evs, None) \<Rightarrow> (evs, None)
      | (evs, Some IOError) \<Rightarrow> (evs @ [PrintWriteError (i + 1) IOError], None)
      | (evs, Some (TimeoutExpired out err)) \<Rightarrow> (evs @ [PrintTimedOut (i + 1)], None)
      | (evs, Some err) \<Rightarrow> (evs @ [PrintErrorOccurred (i + 1) err], None))"

text \<open>The rate-limiting block at the end of the loop body.\<close>

definition rate_limit :: "nat \<Rightarrow> nat \<Rightarrow> event list" where
  "rate_limit n i = (if int i < int n - 1 then [PrintWaitingNext, Sleep 20] else [])"

text \<open>
  \<^verbatim>\<open>query = problem.get("query", "No query provided.")\<close>
\<close>

definition query_of :: "problem \<Rightarrow> pyval" where
  "query_of problem = dict_get_default problem (lit ''query'') (PStr (lit ''No query provided.''))"

text \<open>
  The statements between the retry loop and the \<^verbatim>\<open>try\<close> block, which no \<^verbatim>\<open>try\<close> encloses,
  followed by the \<^verbatim>\<open>try\<close> statement and the rate-limiting block.  \<^verbatim>\<open>code_response.strip()\<close>
  raises \<^verbatim>\<open>AttributeError\<close> when the content is not a string, and \<^verbatim>\<open>print(clean_code)\<close>
  raises what \<open>print_text\<close> raises, after the line above the code has been printed.
\<close>

definition after_generation ::
  "env \<Rightarrow> nat \<Rightarrow> nat \<Rightarrow> problem \<Rightarrow> pyval \<Rightarrow> event list \<times> exn option" where
  "after_generation e n i problem code_response =
     (case code_response of
        PStr response \<Rightarrow>
          (let clean_code = extract_code response
           in case print_text e clean_code of
                Some err \<Rightarrow> ([PrintGeneratedHeader (i + 1)], Some err)
              | None \<Rightarrow>
                  (case sandbox_step e i problem clean_code of
                     (evs, Some err) \<Rightarrow>
                       ([PrintGeneratedHeader (i + 1), PrintGeneratedCode clean_code,
                         PrintGeneratedFooter] @ evs, Some err)
                   | (evs, None) \<Rightarrow>
                       ([PrintGeneratedHeader (i + 1), PrintGeneratedCode clean_code,
                         PrintGeneratedFooter] @ evs @ rate_limit n i, None)))
      | _ \<Rightarrow> ([], Some AttributeError))"

text \<open>
  One iteration of \<^verbatim>\<open>for i, problem in enumerate(problems)\<close>, with \<open>n = len(problems)\<close>.
  The result is the events of the iteration and the exception that leaves it, if any.
  \<^verbatim>\<open>problem.get\<close> raises \<^verbatim>\<open>AttributeError\<close> when the problem is not a dictionary; a
  \<^verbatim>\<open>code_response\<close> that is \<^verbatim>\<open>None\<close> takes \<^verbatim>\<open>continue\<close>.
\<close>

definition process_problem :: "env \<Rightarrow> nat \<Rightarrow> nat \<Rightarrow> pyval \<Rightarrow> event list \<times> exn option" where
  "process_problem e n i p =
     (case p of
        PDict problem \<Rightarrow>
          (let query = query_of problem;
               (code_response, gen) = retry_loop e i n query PNone [0..<max_retries]
           in if code_response = PNone then (gen, None)
              else (let (evs, r) = after_generation e n i problem code_response
                    in (gen @ evs, r)))
      | _ \<Rightarrow> ([], Some AttributeError))"

text \<open>The loop over the problems: an exception that leaves an iteration ends the loop.\<close>

fun main_loop :: "env \<Rightarrow> nat \<Rightarrow> nat \<Rightarrow> pyval list \<Rightarrow> event list \<times> exn option" where
  "main_loop e n i [] = ([], None)"
| "main_loop e n i (problem # rest) =
     (case process_problem e n i problem of
        (evs, Some err) \<Rightarrow> (evs, Some err)
      | (evs, None) \<Rightarrow> (let (evs', r) = main_loop e n (i + 1) rest in (evs @ evs', r)))"

text \<open>
  \<^verbatim>\<open>main()\<close> on the argument vector \<^verbatim>\<open>sys.argv\<close>: the exit status of the process and the
  events of the run.  \<^verbatim>\<open>sys.exit(1)\<close> gives status 1, an uncaught exception ends the
  interpreter with status 1, and returning from \<^verbatim>\<open>main\<close> gives status 0.
\<close>

definition main :: "env \<Rightarrow> pystr list \<Rightarrow> nat \<times> event list" where
  "main e argv =
     (if length argv < 2 then (1, [PrintMissingArgument, PrintUsage])
      else
        (let json_directory_path = argv ! 1;
             (problems, load_evs) = parse_json_directory_to_dicts e json_directory_path;
             n = length problems;
             start = [PrintLoading json_directory_path] @ load_evs @
                     [PrintFound n, PrintEstimated (n * 30), PrintRule]
         in case main_loop e n 0 problems of
              (evs, Some err) \<Rightarrow> (1, start @ evs)
            | (evs, None) \<Rightarrow> (0, start @ evs @ [PrintSummary n])))"

section \<open>Outcomes\<close>

text \<open>
  The terminal outcome of a problem is read off the line that reports it: the four
  validation verdicts, and one skip reason for each of the remaining reports.
\<close>

datatype outcome =
    PASS
  | FAIL_MISMATCH
  | FAIL_RUNTIME_ERROR
  | SKIPPED_NO_EXPECTED
  | GENERATION_EXHAUSTED
  | PERSISTENCE_ERROR
  | EXECUTION_TIMEOUT
  | UNEXPECTED_ERROR

fun outcome_of :: "event \<Rightarrow> outcome option" where
  "outcome_of (PrintResult ok) = Some (if ok then PASS else FAIL_MISMATCH)"
| "outcome_of PrintResultRuntimeError = Some FAIL_RUNTIME_ERROR"
| "outcome_of PrintValidationSkipped = Some SKIPPED_NO_EXPECTED"
| "outcome_of (PrintGiveUp k m) = Some GENERATION_EXHAUSTED"
| "outcome_of (PrintWriteError k err) = Some PERSISTENCE_ERROR"
| "outcome_of (PrintTimedOut k) = Some EXECUTION_TIMEOUT"
| "outcome_of (PrintErrorOccurred k err) = Some UNEXPECTED_ERROR"
| "outcome_of _ = None"

definition outcomes :: "event list \<Rightarrow> outcome list" where
  "outcomes evs = List.map_filter outcome_of evs"

text \<open>
  \<open>executed e n i problem out err\<close>: the solution of the problem was executed and
  produced standard output \<open>out\<close> and standard error \<open>err\<close>, that is, a response was
  generated and was a text, the cleaned code was printed and written, and
  \<^verbatim>\<open>subprocess.run\<close> returned.
\<close>

definition executed :: "env \<Rightarrow> nat \<Rightarrow> nat \<Rightarrow> problem \<Rightarrow> pystr \<Rightarrow> pystr \<Rightarrow> bool" where
  "executed e n i problem out err \<longleftrightarrow>
     (case fst (retry_loop e i n (query_of problem) PNone [0..<max_retries]) of
        PStr response \<Rightarrow>
          print_text e (extract_code response) = None \<and>
          write_solution e (i + 1) (extract_code response) = None \<and>
          run_solution e (i + 1) (input_data_of e (dict_get problem (lit ''test_input''))) 10
            = Inr (out, err)
      | _ \<Rightarrow> False)"

text \<open>The generation attempts and the delays among the events, in order.\<close>

fun attempt_or_delay :: "event \<Rightarrow> bool" where
  "attempt_or_delay (LlmInvoke i attempt query) = True"
| "attempt_or_delay (Sleep d) = True"
| "attempt_or_delay _ = False"

section \<open>Concrete runs\<close>

text \<open>
  Two problems, and an environment built from the behaviour of the generation service,
  which answers with a text or fails, and of the child process; the code is always
  printed and written, the directory \<^verbatim>\<open>problems\<close> exists and holds two files that both
  hold the first problem.
\<close>

definition sign_problem :: problem where
  "sign_problem =
     [lit ''query'' \<mapsto> PStr (lit ''print sign''),
      lit ''test_input'' \<mapsto> PStr (lit ''5''),
      lit ''test_output'' \<mapsto> PStr (lit ''POSITIVE'')]"

definition bare_problem :: problem where
  "bare_problem = [lit ''query'' \<mapsto> PStr (lit ''print sign'')]"

definition example_env ::
  "(nat \<Rightarrow> nat \<Rightarrow> exn + pystr) \<Rightarrow> (nat \<Rightarrow> exn + (pystr \<times> pystr)) \<Rightarrow> env" where
  "example_env llm run =
     \<lparr>llm_invoke = (\<lambda>i attempt query. map_sum id PStr (llm i attempt)),
      print_text = (\<lambda>s. None),
      write_solution = (\<lambda>k code. None),
      run_solution = (\<lambda>k input_data timeout. run k),
      repr_of = (\<lambda>v. lit ''<value>''),
      is_dir = (\<lambda>path. path = lit ''problems''),
      glob_json = (\<lambda>path. [lit ''problems/a.json'', lit ''problems/b.json'']),
      json_load = (\<lambda>file_path. Inr (PDict sign_problem))\<rparr>"

section \<open>Properties of trimming\<close>

lemma py_strip_surround:
  assumes "list_all is_space l" and "list_all is_space r"
  shows "py_strip (l @ s @ r) = py_strip s"
proof -
  have l: "\<And>x. x \<in> set l \<Longrightarrow> is_space x" and r: "\<And>x. x \<in> set (rev r) \<Longrightarrow> is_space x"
    using assms by (simp_all add: list_all_iff)
  have dl: "dropWhile is_space (l @ s @ r) = dropWhile is_space (s @ r)"
    using l by (rule dropWhile_append2)
  have dr: "dropWhile is_space (rev r @ ys) = dropWhile is_space ys" for ys
    using r by (rule dropWhile_append2)
  have r0: "dropWhile is_space r = []" using r by simp
  show ?thesis
  proof (cases "\<forall>x\<in>set s. is_space x")
    case True
    then have s0: "dropWhile is_space s = []" by simp
    from True have sr0: "dropWhile is_space (s @ r) = []"
      by (simp add: dropWhile_append r0)
    show ?thesis by (simp add: py_strip_def dl s0 sr0)
  next
    case False
    then obtain x where "x \<in> set s" and "\<not> is_space x" by blast
    then have "dropWhile is_space (s @ r) = dropWhile is_space s @ r"
      by (rule dropWhile_append1)
    then show ?thesis by (simp add: py_strip_def dl dr)
  qed
qed

lemma py_strip_trimmed: "trimmed t \<Longrightarrow> py_strip t = t"
proof (cases t)
  case Nil then show ?thesis by (simp add: py_strip_def)
next
  case (Cons c u)
  assume "trimmed t"
  with Cons have h: "\<not> is_space c" "\<not> is_space (last t)" by (simp_all add: trimmed_def)
  have "dropWhile is_space t = t" using Cons h by simp
  moreover have "dropWhile is_space (rev t) = rev t"
    using Cons h(2) by (metis dropWhile_eq_self_iff hd_rev list.discI)
  ultimately show ?thesis by (simp add: py_strip_def)
qed

lemma last_dropWhile: "dropWhile P xs \<noteq> [] \<Longrightarrow> last (dropWhile P xs) = last xs"
  by (induction xs) (auto split: if_splits)

lemma trimmed_py_strip: "trimmed (py_strip s)"
proof -
  define d where "d = dropWhile is_space s"
  define e where "e = dropWhile is_space (rev d)"
  have s: "py_strip s = rev e" by (simp add: py_strip_def d_def e_def)
  show ?thesis
  proof (cases "e = []")
    case True then show ?thesis by (simp add: s trimmed_def)
  next
    case False
    then have dne: "d \<noteq> []" by (auto simp: e_def)
    have hd_d: "\<not> is_space (hd d)" using dne unfolding d_def by (rule hd_dropWhile)
    have hd_e: "\<not> is_space (hd e)" using False unfolding e_def by (rule hd_dropWhile)
    have "last e = last (rev d)" using False unfolding e_def by (rule last_dropWhile)
    then have last_e: "last e = hd d" using dne by (simp add: last_rev)
    have "hd (rev e) = last e" using False by (simp add: hd_rev)
    moreover have "last (rev e) = hd e" using False by (simp add: last_rev)
    moreover obtain c u where "rev e = c # u" using False by (cases "rev e") auto
    ultimately show ?thesis using hd_d hd_e last_e by (simp add: s trimmed_def)
  qed
qed

lemma py_strip_decompose:
  "\<exists>l r. s = l @ py_strip s @ r \<and> list_all is_space l \<and> list_all is_space r"
proof -
  define d where "d = dropWhile is_space s"
  have 1: "s = takeWhile is_space s @ d" by (simp add: d_def)
  have "rev d = takeWhile is_space (rev d) @ dropWhile is_space (rev d)" by simp
  then have "d = rev (dropWhile is_space (rev d)) @ rev (takeWhile is_space (rev d))"
    by (metis rev_append rev_rev_ident)
  then have 2: "d = py_strip s @ rev (takeWhile is_space (rev d))"
    by (simp add: py_strip_def d_def)
  have 3: "list_all is_space (takeWhile is_space s)"
    by (simp add: list_all_iff) (meson set_takeWhileD)
  have 4: "list_all is_space (rev (takeWhile is_space (rev d)))"
    by (simp add: list_all_iff) (meson set_takeWhileD)
  from 1 2 have "s = takeWhile is_space s @ py_strip s @ rev (takeWhile is_space (rev d))" by simp
  with 3 4 show ?thesis by blast
qed

lemma py_strip_core:
  assumes "list_all is_space l" and "list_all is_space r" and "trimmed t"
  shows "py_strip (l @ t @ r) = t"
  using assms by (simp add: py_strip_surround py_strip_trimmed)

lemma py_strip_all_space: "list_all is_space s \<Longrightarrow> py_strip s = []"
  using py_strip_core [of s "[]" "[]"] by (simp add: trimmed_def)

lemma py_strip_idem: "py_strip (py_strip s) = py_strip s"
  by (rule py_strip_trimmed) (rule trimmed_py_strip)

section \<open>The validator\<close>

text \<open>
  C3.  \<open>validate_solution\<close> holds exactly when the two texts are equal after stripping,
  where the stripped text is the trimmed core of the text: the text is that core between
  two runs of whitespace.  So for two trimmed texts, each surrounded by any whitespace,
  \<open>validate_solution\<close> holds iff the two trimmed texts are literally equal: leading and
  trailing whitespace is ignored, everything inside (inner whitespace, case, a leading
  zero) counts.  The three examples of the specification evaluate as stated.
\<close>

theorem validate_solution_trimmed_equality:
  "(validate_solution actual expected \<longleftrightarrow> py_strip actual = py_strip expected)
   \<and> trimmed (py_strip actual)
   \<and> (\<exists>l r. list_all is_space l \<and> list_all is_space r \<and> actual = l @ py_strip actual @ r)
   \<and> (list_all is_space l \<and> list_all is_space r \<and> list_all is_space l' \<and> list_all is_space r'
        \<and> trimmed a \<and> trimmed b
      \<longrightarrow> (validate_solution (l @ a @ r) (l' @ b @ r') \<longleftrightarrow> a = b))
   \<and> validate_solution (lit ''5\<newline>'') (lit ''5'')
   \<and> validate_solution (lit ''5'') (lit '' 5 '')
   \<and> \<not> validate_solution (lit ''5'') (lit ''05'')
   \<and> \<not> validate_solution (lit ''a b'') (lit ''ab'')
   \<and> \<not> validate_solution (lit ''Five'') (lit ''five'')"
proof -
  have 1: "validate_solution actual expected \<longleftrightarrow> py_strip actual = py_strip expected"
    by (simp add: validate_solution_def)
  have 2: "trimmed (py_strip actual)"
    by (rule trimmed_py_strip)
  have 3: "\<exists>l r. list_all is_space l \<and> list_all is_space r \<and> actual = l @ py_strip actual @ r"
    using py_strip_decompose [of actual] by blast
  have 4: "list_all is_space l \<and> list_all is_space r \<and> list_all is_space l' \<and> list_all is_space r'
        \<and> trimmed a \<and> trimmed b
      \<longrightarrow> (validate_solution (l @ a @ r) (l' @ b @ r') \<longleftrightarrow> a = b)"
    by (simp add: validate_solution_def py_strip_core)
  have 5: "validate_solution (lit ''5\<newline>'') (lit ''5'')"
    by (simp add: validate_solution_def py_strip_def lit_def is_space_def)
  have 6: "validate_solution (lit ''5'') (lit '' 5 '')"
    by (simp add: validate_solution_def py_strip_def lit_def is_space_def)
  have 7: "\<not> validate_solution (lit ''5'') (lit ''05'')"
    by (simp add: validate_solution_def py_strip_def lit_def is_space_def)
  have 8: "\<not> validate_solution (lit ''a b'') (lit ''ab'')"
    by (simp add: validate_solution_def py_strip_def lit_def is_space_def)
  have 9: "\<not> validate_solution (lit ''Five'') (lit ''five'')"
    by (simp add: validate_solution_def py_strip_def lit_def is_space_def)
  from 1 2 3 4 5 6 7 8 9 show ?thesis by blast
qed

theorem validate_solution_trimmed_equality_witness:
  "list_all is_space (lit ''  '') \<and> list_all is_space (lit ''\<newline>'') \<and> list_all is_space []
   \<and> trimmed (lit ''POSITIVE'') \<and> trimmed (lit ''positive'')
   \<and> validate_solution (lit ''  '' @ lit ''POSITIVE'' @ lit ''\<newline>'') ([] @ lit ''POSITIVE'' @ [])
   \<and> \<not> validate_solution (lit ''  '' @ lit ''POSITIVE'' @ lit ''\<newline>'') ([] @ lit ''positive'' @ [])"
proof -
  have h: "list_all is_space (lit ''  '')" "list_all is_space (lit ''\<newline>'')"
      "list_all is_space []" "trimmed (lit ''POSITIVE'')" "trimmed (lit ''positive'')"
    by (simp_all add: lit_def is_space_def trimmed_def)
  have ne: "lit ''POSITIVE'' \<noteq> lit ''positive''"
    by (simp add: lit_def)
  from h ne
    validate_solution_trimmed_equality
      [of _ _ "lit ''  ''" "lit ''\<newline>''" "[]" "[]" "lit ''POSITIVE''" "lit ''POSITIVE''"]
    validate_solution_trimmed_equality
      [of _ _ "lit ''  ''" "lit ''\<newline>''" "[]" "[]" "lit ''POSITIVE''" "lit ''positive''"]
  show ?thesis by blast
qed

section \<open>The code extractor\<close>

lemma fence_eq: "fence = [96, 96, 96]"
  by (simp add: fence_def lit_def)

lemma fence_python_eq: "fence_python = fence @ lit ''python''"
  by (simp add: fence_python_def fence_def lit_def)

lemma py_replace_absent:
  "old \<noteq> [] \<Longrightarrow> \<not> sublist old s \<Longrightarrow> py_replace old new s = s"
proof (induction s)
  case Nil
  then show ?case by simp
next
  case (Cons c s)
  from Cons.prems(2) have "\<not> prefix old (c # s)" and "\<not> sublist old s"
    by (auto simp: sublist_Cons_right)
  with Cons show ?case by simp
qed

lemma replace_fence_hd:
  "py_replace fence [] s = 96 # u \<Longrightarrow> \<exists>v. s = 96 # v"
  by (cases s) (auto simp: fence_eq split: if_splits)

lemma fence_ne: "fence \<noteq> []"
  by (simp add: fence_eq)

lemma replace_fence_hd2:
  assumes a: "py_replace fence [] s = 96 # 96 # u"
  shows "\<exists>v. s = 96 # 96 # v"
proof (cases s)
  case Nil
  with a show ?thesis by simp
next
  case (Cons c t)
  show ?thesis
  proof (cases "prefix fence (c # t)")
    case True
    then show ?thesis using Cons by (auto simp: fence_eq prefix_def)
  next
    case False
    with a Cons have "c = 96" and "py_replace fence [] t = 96 # u"
      by (simp_all add: fence_ne)
    then show ?thesis using Cons replace_fence_hd by blast
  qed
qed

lemma replace_fence_free_aux:
  "old = fence \<Longrightarrow> new = [] \<Longrightarrow> \<not> sublist fence (py_replace old new s)"
proof (induction old new s rule: py_replace.induct)
  case (1 old new)
  then show ?case by (simp add: fence_eq)
next
  case (2 old new c s)
  show ?case
  proof (cases "prefix fence (c # s)")
    case True
    then show ?thesis using 2 by (simp add: fence_ne)
  next
    case False
    have ih: "\<not> sublist fence (py_replace fence [] s)"
      using 2 False by (simp add: fence_ne)
    have eq: "py_replace fence [] (c # s) = c # py_replace fence [] s"
      using False by (simp add: fence_ne)
    have np: "\<not> prefix fence (c # py_replace fence [] s)"
    proof
      assume "prefix fence (c # py_replace fence [] s)"
      then obtain u where c: "c = 96" and r: "py_replace fence [] s = 96 # 96 # u"
        by (auto simp: fence_eq prefix_def)
      from replace_fence_hd2 [OF r] obtain v where "s = 96 # 96 # v" by blast
      with c have "prefix fence (c # s)" by (simp add: fence_eq)
      with False show False by contradiction
    qed
    have "\<not> sublist fence (c # py_replace fence [] s)"
      using ih np by (simp add: sublist_Cons_right)
    then show ?thesis using eq "2.prems" by simp
  qed
qed

lemma replace_fence_free: "\<not> sublist fence (py_replace fence [] s)"
  by (rule replace_fence_free_aux) simp_all

lemma sublist_py_strip: "sublist (py_strip s) s"
proof -
  obtain l r where "s = l @ py_strip s @ r" using py_strip_decompose by blast
  then show ?thesis unfolding sublist_def by metis
qed

lemma extract_code_no_fence: "\<not> sublist fence (extract_code raw)"
  unfolding extract_code_def
  using replace_fence_free sublist_py_strip sublist_order.order_trans by blast

lemma fence_sublist_fence_python: "sublist fence fence_python"
  unfolding fence_python_eq by (rule prefix_imp_sublist) simp

lemma fence_python_ne: "fence_python \<noteq> []"
  by (simp add: fence_python_def lit_def)

lemma extract_code_fence_free_input:
  assumes "\<not> sublist fence raw"
  shows "extract_code raw = py_strip raw"
proof -
  have 1: "\<not> sublist fence (py_strip raw)"
    using assms sublist_py_strip sublist_order.order_trans by blast
  have 2: "\<not> sublist fence_python (py_strip raw)"
    using 1 fence_sublist_fence_python sublist_order.order_trans by blast
  show ?thesis
    unfolding extract_code_def
    by (simp add: py_replace_absent 1 2 py_strip_idem fence_ne fence_python_ne)
qed

lemma subseq_py_replace:
  "old \<noteq> [] \<Longrightarrow> new = [] \<Longrightarrow> subseq (py_replace old new s) s"
proof (induction old new s rule: py_replace.induct)
  case (1 old new)
  then show ?case by simp
next
  case (2 old new c s)
  show ?case
  proof (cases "prefix old (c # s)")
    case True
    have "subseq (py_replace old new (drop (length old) (c # s))) (drop (length old) (c # s))"
      using 2 True by simp
    moreover have "subseq (drop (length old) (c # s)) (c # s)"
      by (rule suffix_imp_subseq) (rule suffix_drop)
    ultimately have "subseq (py_replace old new (drop (length old) (c # s))) (c # s)"
      by (rule subseq_order.order_trans)
    then show ?thesis using 2 True by simp
  next
    case False
    then show ?thesis using 2 by simp
  qed
qed

lemma subseq_py_strip: "subseq (py_strip s) s"
  by (rule sublist_imp_subseq) (rule sublist_py_strip)

lemma subseq_extract_code: "subseq (extract_code raw) raw"
proof -
  have "subseq (py_replace fence_python [] (py_strip raw)) raw"
    using subseq_py_replace [OF fence_python_ne refl] subseq_py_strip
    by (rule subseq_order.order_trans)
  then have "subseq (py_replace fence [] (py_replace fence_python [] (py_strip raw))) raw"
    using subseq_py_replace [OF fence_ne refl] subseq_order.order_trans by blast
  then show ?thesis
    unfolding extract_code_def using subseq_py_strip subseq_order.order_trans by blast
qed

lemma py_replace_skip:
  "old \<noteq> [] \<Longrightarrow> hd old \<notin> set l \<Longrightarrow> py_replace old new (l @ x) = l @ py_replace old new x"
proof (induction l)
  case Nil
  then show ?case by simp
next
  case (Cons c l)
  then have "\<not> prefix old (c # l @ x)"
    by (cases old) auto
  with Cons show ?case by simp
qed

lemma py_replace_at_head:
  "old \<noteq> [] \<Longrightarrow> py_replace old new (old @ b) = new @ py_replace old new b"
  by (cases old) simp_all

lemma py_replace_no_hd: "old \<noteq> [] \<Longrightarrow> hd old \<notin> set r \<Longrightarrow> py_replace old new r = r"
  using py_replace_skip [of old r new "[]"] by simp

lemma py_replace_suffix:
  "old \<noteq> [] \<Longrightarrow> set r \<inter> set old = {} \<Longrightarrow>
     py_replace old new (s @ r) = py_replace old new s @ r"
proof (induction old new s rule: py_replace.induct)
  case (1 old new)
  then have "hd old \<notin> set r" by (cases old) auto
  with 1 show ?case by (simp add: py_replace_no_hd)
next
  case (2 old new c s)
  show ?case
  proof (cases "prefix old (c # s)")
    case True
    then have p: "prefix old (c # s @ r)"
      by (metis append_Cons prefix_prefix)
    from True have len: "length old \<le> length (c # s)"
      by (rule prefix_length_le)
    then have d: "drop (length old) (c # s @ r) = drop (length old) (c # s) @ r"
      using drop_append [of "length old" "c # s" r] by simp
    have ne: "old \<noteq> []" by (rule "2.prems"(1))
    from 2 True have ih: "py_replace old new (drop (length old) (c # s) @ r)
        = py_replace old new (drop (length old) (c # s)) @ r"
      by simp
    have lhs: "py_replace old new ((c # s) @ r)
        = new @ py_replace old new (drop (length old) (c # s @ r))"
      using ne p by simp
    have rhs: "py_replace old new (c # s)
        = new @ py_replace old new (drop (length old) (c # s))"
      using ne True by simp
    show ?thesis unfolding lhs rhs d ih by simp
  next
    case False
    have np: "\<not> prefix old (c # s @ r)"
    proof
      assume "prefix old (c # s @ r)"
      then have "prefix old ((c # s) @ r)" by simp
      then consider "prefix old (c # s)" | us where "old = (c # s) @ us" "us \<noteq> []" "prefix us r"
        unfolding prefix_append by (metis append_Nil2 prefix_order.order_refl)
      then show False
      proof cases
        case 1
        with False show False by contradiction
      next
        case 2
        then have "hd us \<in> set r" "hd us \<in> set old"
          by (cases us; auto simp: prefix_def)+
        with "2.prems"(2) show False by auto
      qed
    qed
    have ne: "old \<noteq> []" by (rule "2.prems"(1))
    from 2 False have ih: "py_replace old new (s @ r) = py_replace old new s @ r" by simp
    have lhs: "py_replace old new ((c # s) @ r) = c # py_replace old new (s @ r)"
      using ne np by simp
    have rhs: "py_replace old new (c # s) = c # py_replace old new s"
      using ne False by simp
    show ?thesis unfolding lhs rhs ih by simp
  qed
qed

lemma space_not_in_fence_python: "is_space c \<Longrightarrow> c \<notin> set fence_python"
  by (auto simp: fence_python_def lit_def is_space_def)

lemma space_not_in_fence: "is_space c \<Longrightarrow> c \<notin> set fence"
  by (auto simp: fence_def lit_def is_space_def)

lemma hd_fence: "hd fence = 96" and hd_fence_python: "hd fence_python = 96"
  by (simp_all add: fence_def fence_python_def lit_def)

lemma remove_markers_surround:
  assumes "list_all is_space l" and "list_all is_space r"
  shows "py_replace fence [] (py_replace fence_python [] (l @ s @ r))
      = l @ py_replace fence [] (py_replace fence_python [] s) @ r"
proof -
  have l: "96 \<notin> set l"
    using assms(1) by (auto simp: list_all_iff is_space_def)
  have rp: "set r \<inter> set fence_python = {}"
    using assms(2) space_not_in_fence_python by (auto simp: list_all_iff)
  have rf: "set r \<inter> set fence = {}"
    using assms(2) space_not_in_fence by (auto simp: list_all_iff)
  have "py_replace fence_python [] (l @ s @ r) = l @ py_replace fence_python [] (s @ r)"
    using l by (simp add: py_replace_skip fence_python_ne hd_fence_python)
  also have "\<dots> = l @ py_replace fence_python [] s @ r"
    using rp by (simp add: py_replace_suffix fence_python_ne)
  finally have 1: "py_replace fence_python [] (l @ s @ r) = l @ py_replace fence_python [] s @ r" .
  have "py_replace fence [] (l @ py_replace fence_python [] s @ r)
      = l @ py_replace fence [] (py_replace fence_python [] s @ r)"
    using l by (simp add: py_replace_skip fence_ne hd_fence)
  also have "\<dots> = l @ py_replace fence [] (py_replace fence_python [] s) @ r"
    using rf by (simp add: py_replace_suffix fence_ne)
  finally show ?thesis unfolding 1 .
qed

lemma extract_code_one_strip:
  "extract_code raw = py_strip (py_replace fence [] (py_replace fence_python [] raw))"
proof -
  from py_strip_decompose [of raw] obtain l r where
    raw: "raw = l @ py_strip raw @ r" and l: "list_all is_space l" and r: "list_all is_space r"
    by blast
  have "py_strip (py_replace fence [] (py_replace fence_python [] (l @ py_strip raw @ r)))
      = py_strip (py_replace fence [] (py_replace fence_python [] (py_strip raw)))"
    unfolding remove_markers_surround [OF l r] using l r by (rule py_strip_surround)
  then show ?thesis
    unfolding extract_code_def using raw by simp
qed

lemma extract_code_python_fence:
  assumes "96 \<notin> set a"
  shows "extract_code (a @ fence_python @ b) = extract_code (a @ b)"
proof -
  have 1: "py_replace fence_python [] (a @ fence_python @ b) = a @ py_replace fence_python [] b"
    using assms by (simp add: py_replace_skip py_replace_at_head fence_python_ne hd_fence_python)
  have 2: "py_replace fence_python [] (a @ b) = a @ py_replace fence_python [] b"
    using assms by (simp add: py_replace_skip fence_python_ne hd_fence_python)
  show ?thesis unfolding extract_code_one_strip 1 2 ..
qed

lemma replace_python_after_fence:
  assumes "\<not> prefix (lit ''python'') b" and "\<not> prefix (lit ''`python'') b"
    and "\<not> prefix (lit ''``python'') b"
  shows "py_replace fence_python [] (fence @ b) = fence @ py_replace fence_python [] b"
  using assms by (simp add: fence_python_def fence_def lit_def)

lemma extract_code_bare_fence:
  assumes "96 \<notin> set a" and "\<not> prefix (lit ''python'') b" and "\<not> prefix (lit ''`python'') b"
    and "\<not> prefix (lit ''``python'') b"
  shows "extract_code (a @ fence @ b) = extract_code (a @ b)"
proof -
  have 1: "py_replace fence_python [] (a @ fence @ b) = a @ fence @ py_replace fence_python [] b"
    using assms(1) replace_python_after_fence [OF assms(2-4)]
    by (simp add: py_replace_skip fence_python_ne hd_fence_python)
  have 2: "py_replace fence [] (a @ fence @ py_replace fence_python [] b)
      = a @ py_replace fence [] (py_replace fence_python [] b)"
    using assms(1) by (simp add: py_replace_skip py_replace_at_head fence_ne hd_fence)
  have 3: "py_replace fence_python [] (a @ b) = a @ py_replace fence_python [] b"
    using assms(1) by (simp add: py_replace_skip fence_python_ne hd_fence_python)
  have 4: "py_replace fence [] (a @ py_replace fence_python [] b)
      = a @ py_replace fence [] (py_replace fence_python [] b)"
    using assms(1) by (simp add: py_replace_skip fence_ne hd_fence)
  show ?thesis unfolding extract_code_one_strip 1 2 3 4 ..
qed

lemma prefix_append_short:
  assumes "prefix xs (ys @ zs)" and "length xs \<le> length ys"
  shows "prefix xs ys"
proof -
  from assms(1) obtain ws where "ys @ zs = xs @ ws" by (auto simp: prefix_def)
  then have "take (length xs) (ys @ zs) = xs" by simp
  with assms(2) have "take (length xs) ys = xs" by simp
  then show ?thesis by (metis take_is_prefix)
qed

lemma py_replace_leftmost:
  "old \<noteq> [] \<Longrightarrow> \<not> sublist old (a @ butlast old) \<Longrightarrow>
     py_replace old new (a @ old @ b) = a @ new @ py_replace old new b"
proof (induction a)
  case Nil
  then show ?case by (simp add: py_replace_at_head)
next
  case (Cons c a)
  have split: "c # a @ old @ b = ((c # a) @ butlast old) @ ([last old] @ b)"
    using append_butlast_last_id [OF Cons.prems(1)] by (metis append_Cons append_assoc)
  have np: "\<not> prefix old (c # a @ old @ b)"
  proof
    assume "prefix old (c # a @ old @ b)"
    then have "prefix old (((c # a) @ butlast old) @ ([last old] @ b))"
      by (simp only: split)
    moreover have "length old \<le> length ((c # a) @ butlast old)"
      by simp
    ultimately have "prefix old ((c # a) @ butlast old)"
      by (rule prefix_append_short)
    then have "sublist old ((c # a) @ butlast old)"
      by (rule prefix_imp_sublist)
    with Cons.prems(2) show False by contradiction
  qed
  have "\<not> sublist old (a @ butlast old)"
    using Cons.prems(2) by (auto simp: sublist_Cons_right)
  with Cons have "py_replace old new (a @ old @ b) = a @ new @ py_replace old new b"
    by simp
  then show ?case using Cons.prems(1) np by simp
qed

text \<open>
  C9.  The code extractor is a total function of the raw response alone.  Its result is
  trimmed (it neither begins nor ends with whitespace), contains no fence, and is
  obtained from the response by deleting characters only.  What it deletes is fixed: the
  whitespace at the two ends, every occurrence of the fence with the tag \<^verbatim>\<open>python\<close> and
  then every occurrence of the bare fence, each found from left to right; a response
  without a fence is only stripped.  So a fence with the tag \<^verbatim>\<open>python\<close> that stands after
  text without a backtick is removed whole, and a bare fence there loses its three
  backticks while the text after it stays, a language tag other than \<^verbatim>\<open>python\<close>
  included.
\<close>

theorem extract_code_removes_fences:
  "trimmed (extract_code raw)
   \<and> \<not> sublist fence (extract_code raw)
   \<and> \<not> sublist fence_python (extract_code raw)
   \<and> subseq (extract_code raw) raw
   \<and> extract_code raw = py_strip (py_replace fence [] (py_replace fence_python [] raw))
   \<and> (\<not> sublist old s \<longrightarrow> py_replace old [] s = s)
   \<and> (old \<noteq> [] \<and> \<not> sublist old (a @ butlast old)
        \<longrightarrow> py_replace old [] (a @ old @ b) = a @ py_replace old [] b)
   \<and> (\<not> sublist fence raw \<longrightarrow> extract_code raw = py_strip raw)
   \<and> (96 \<notin> set a \<longrightarrow> extract_code (a @ fence_python @ b) = extract_code (a @ b))
   \<and> (96 \<notin> set a \<and> \<not> prefix (lit ''python'') b \<and> \<not> prefix (lit ''`python'') b
        \<and> \<not> prefix (lit ''``python'') b
        \<longrightarrow> extract_code (a @ fence @ b) = extract_code (a @ b))
   \<and> (list_all is_space raw \<longrightarrow> extract_code raw = [])
   \<and> extract_code [] = []
   \<and> extract_code (lit ''```python\<newline>print(1)\<newline>```\<newline>'') = lit ''print(1)''
   \<and> extract_code (lit ''```py\<newline>print(1)\<newline>```'') = lit ''py\<newline>print(1)''"
proof -
  have 1: "trimmed (extract_code raw)"
    unfolding extract_code_def by (rule trimmed_py_strip)
  have 2: "\<not> sublist fence (extract_code raw)"
    by (rule extract_code_no_fence)
  have 3: "\<not> sublist fence_python (extract_code raw)"
    using 2 fence_sublist_fence_python sublist_order.order_trans by blast
  have 4: "subseq (extract_code raw) raw"
    by (rule subseq_extract_code)
  have 5: "extract_code raw = py_strip (py_replace fence [] (py_replace fence_python [] raw))"
    by (rule extract_code_one_strip)
  have 6: "\<not> sublist old s \<longrightarrow> py_replace old [] s = s"
    by (cases "old = []") (simp_all add: py_replace_absent)
  have 7: "old \<noteq> [] \<and> \<not> sublist old (a @ butlast old)
        \<longrightarrow> py_replace old [] (a @ old @ b) = a @ py_replace old [] b"
    using py_replace_leftmost [of old a "[]" b] by simp
  have 8: "\<not> sublist fence raw \<longrightarrow> extract_code raw = py_strip raw"
    by (simp add: extract_code_fence_free_input)
  have 9: "96 \<notin> set a \<longrightarrow> extract_code (a @ fence_python @ b) = extract_code (a @ b)"
    by (simp add: extract_code_python_fence)
  have 10: "96 \<notin> set a \<and> \<not> prefix (lit ''python'') b \<and> \<not> prefix (lit ''`python'') b
        \<and> \<not> prefix (lit ''``python'') b
        \<longrightarrow> extract_code (a @ fence @ b) = extract_code (a @ b)"
    using extract_code_bare_fence [of a b] by blast
  have 11: "list_all is_space raw \<longrightarrow> extract_code raw = []"
    by (simp add: extract_code_def py_strip_all_space fence_ne fence_python_ne)
  have 12: "extract_code [] = []"
    by (simp add: extract_code_def py_strip_def fence_ne fence_python_ne)
  have 13: "extract_code (lit ''```python\<newline>print(1)\<newline>```\<newline>'') = lit ''print(1)''"
    by (simp add: extract_code_def py_strip_def lit_def is_space_def fence_def fence_python_def)
  have 14: "extract_code (lit ''```py\<newline>print(1)\<newline>```'') = lit ''py\<newline>print(1)''"
    by (simp add: extract_code_def py_strip_def lit_def is_space_def fence_def fence_python_def)
  from 1 2 3 4 5 6 7 8 9 10 11 12 13 14 show ?thesis by blast
qed

theorem extract_code_removes_fences_witness:
  "\<not> sublist fence (lit '' x = 1 '') \<and> extract_code (lit '' x = 1 '') = py_strip (lit '' x = 1 '')
   \<and> py_replace fence [] (lit '' x = 1 '') = lit '' x = 1 ''
   \<and> list_all is_space (lit '' \<newline>'') \<and> extract_code (lit '' \<newline>'') = []
   \<and> fence \<noteq> [] \<and> \<not> sublist fence (lit ''a`b'' @ butlast fence)
   \<and> py_replace fence [] (lit ''a`b'' @ fence @ lit ''b'') = lit ''a`b'' @ py_replace fence [] (lit ''b'')
   \<and> 96 \<notin> set (lit ''Here:\<newline>'')
   \<and> extract_code (lit ''Here:\<newline>'' @ fence_python @ lit ''\<newline>x = 1'')
       = extract_code (lit ''Here:\<newline>'' @ lit ''\<newline>x = 1'')
   \<and> \<not> prefix (lit ''python'') (lit ''py\<newline>x = 1'')
   \<and> \<not> prefix (lit ''`python'') (lit ''py\<newline>x = 1'')
   \<and> \<not> prefix (lit ''``python'') (lit ''py\<newline>x = 1'')
   \<and> extract_code (lit ''Here:\<newline>'' @ fence @ lit ''py\<newline>x = 1'')
       = extract_code (lit ''Here:\<newline>'' @ lit ''py\<newline>x = 1'')"
proof -
  have h1: "\<not> sublist fence (lit '' x = 1 '')"
    by (simp add: fence_eq lit_def sublist_Cons_right)
  have h2: "list_all is_space (lit '' \<newline>'')"
    by (simp add: lit_def is_space_def)
  have h3: "fence \<noteq> []" by (rule fence_ne)
  have h4: "\<not> sublist fence (lit ''a`b'' @ butlast fence)"
    by (simp add: fence_eq lit_def sublist_Cons_right)
  have h5: "96 \<notin> set (lit ''Here:\<newline>'')"
    by (simp add: lit_def)
  have h6: "\<not> prefix (lit ''python'') (lit ''py\<newline>x = 1'')"
    "\<not> prefix (lit ''`python'') (lit ''py\<newline>x = 1'')"
    "\<not> prefix (lit ''``python'') (lit ''py\<newline>x = 1'')"
    by (simp_all add: lit_def)
  from h1 h2 h3 h4 h5 h6
    extract_code_removes_fences [where raw = "lit '' x = 1 ''" and old = fence
      and s = "lit '' x = 1 ''" and a = "lit ''a`b''" and b = "lit ''b''"]
    extract_code_removes_fences [where raw = "lit '' \<newline>''"]
    extract_code_removes_fences [where a = "lit ''Here:\<newline>''" and b = "lit ''\<newline>x = 1''"]
    extract_code_removes_fences [where a = "lit ''Here:\<newline>''" and b = "lit ''py\<newline>x = 1''"]
  show ?thesis by blast
qed

theorem extract_code_other_tag_counterexample:
  "extract_code (lit ''```py\<newline>print(1)\<newline>```'') = lit ''py\<newline>print(1)''
   \<and> extract_code (lit ''```py\<newline>print(1)\<newline>```'') \<noteq> lit ''print(1)''
   \<and> prefix (lit ''py'') (extract_code (lit ''```py\<newline>print(1)\<newline>```''))"
  by (simp add: extract_code_def py_strip_def lit_def is_space_def fence_def fence_python_def)

section \<open>Outcomes of the pipeline\<close>

lemma outcomes_Nil: "outcomes [] = []"
  by (simp add: outcomes_def map_filter_simps)

lemma outcomes_Cons:
  "outcomes (ev # evs) = (case outcome_of ev of None \<Rightarrow> outcomes evs | Some r \<Rightarrow> r # outcomes evs)"
  by (simp add: outcomes_def map_filter_simps split: option.splits)

lemma outcomes_append: "outcomes (xs @ ys) = outcomes xs @ outcomes ys"
  by (simp add: outcomes_def map_filter_def)

lemma attempts_upto: "[0..<max_retries] = [0, 1, 2]"
  by (simp add: max_retries_def upt_rec)

lemma retry_loop_outcomes:
  "retry_loop e i n q PNone [0..<max_retries] = (r, gen) \<Longrightarrow>
     (r \<noteq> PNone \<longrightarrow> outcomes gen = [])
     \<and> (outcomes gen = [] \<or> outcomes gen = [GENERATION_EXHAUSTED])"
  unfolding attempts_upto
  by (auto simp: max_retries_def outcomes_Cons outcomes_Nil
      split: sum.splits prod.splits if_splits)

lemma validation_logic_outcomes:
  "outcomes (validation_logic e i problem stdout stderr) =
     [if stderr \<noteq> [] then FAIL_RUNTIME_ERROR
      else if dict_get problem (lit ''test_output'') = PNone then SKIPPED_NO_EXPECTED
      else if validate_solution stdout (py_str e (dict_get problem (lit ''test_output''))) then PASS
      else FAIL_MISMATCH]"
  by (simp add: validation_logic_def outcomes_Cons outcomes_Nil outcomes_append Let_def)

lemma sandbox_step_executed:
  assumes "write_solution e (i + 1) code = None"
    and "run_solution e (i + 1) (input_data_of e (dict_get problem (lit ''test_input''))) 10 = Inr (out, err)"
  shows "sandbox_step e i problem code =
          ([WriteSolution (i + 1) code, PrintWritten (i + 1),
            RunSolution (i + 1) (input_data_of e (dict_get problem (lit ''test_input''))) 10]
           @ validation_logic e i problem (py_strip out) (py_strip err), None)"
  using assms by (simp add: sandbox_step_def try_body_def Let_def)

lemma rate_limit_outcomes: "outcomes (rate_limit n i) = []"
  by (simp add: rate_limit_def outcomes_Cons outcomes_Nil)

lemma process_problem_executed:
  assumes "executed e n i problem out err"
  shows "\<exists>response gen.
     retry_loop e i n (query_of problem) PNone [0..<max_retries] = (PStr response, gen)
     \<and> process_problem e n i (PDict problem) =
        (gen @ [PrintGeneratedHeader (i + 1), PrintGeneratedCode (extract_code response),
           PrintGeneratedFooter,
           WriteSolution (i + 1) (extract_code response), PrintWritten (i + 1),
           RunSolution (i + 1) (input_data_of e (dict_get problem (lit ''test_input''))) 10]
          @ validation_logic e i problem (py_strip out) (py_strip err) @ rate_limit n i, None)"
proof -
  obtain r gen where rl: "retry_loop e i n (query_of problem) PNone [0..<max_retries] = (r, gen)"
    by (cases "retry_loop e i n (query_of problem) PNone [0..<max_retries]")
  with assms obtain response where r: "r = PStr response"
    and p: "print_text e (extract_code response) = None"
    and w: "write_solution e (i + 1) (extract_code response) = None"
    and x: "run_solution e (i + 1) (input_data_of e (dict_get problem (lit ''test_input''))) 10 = Inr (out, err)"
    by (auto simp: executed_def split: pyval.splits)
  show ?thesis
    using rl r p
    by (simp add: process_problem_def after_generation_def Let_def sandbox_step_executed [OF w x])
qed

lemma executed_outcomes:
  assumes "executed e n i problem out err"
  shows "outcomes (fst (process_problem e n i (PDict problem))) =
     [if py_strip err \<noteq> [] then FAIL_RUNTIME_ERROR
      else if dict_get problem (lit ''test_output'') = PNone then SKIPPED_NO_EXPECTED
      else if validate_solution (py_strip out) (py_str e (dict_get problem (lit ''test_output''))) then PASS
      else FAIL_MISMATCH]"
proof -
  from process_problem_executed [OF assms] obtain response gen where
    rl: "retry_loop e i n (query_of problem) PNone [0..<max_retries] = (PStr response, gen)"
    and pp: "process_problem e n i (PDict problem) =
        (gen @ [PrintGeneratedHeader (i + 1), PrintGeneratedCode (extract_code response),
           PrintGeneratedFooter,
           WriteSolution (i + 1) (extract_code response), PrintWritten (i + 1),
           RunSolution (i + 1) (input_data_of e (dict_get problem (lit ''test_input''))) 10]
          @ validation_logic e i problem (py_strip out) (py_strip err) @ rate_limit n i, None)"
    by blast
  from retry_loop_outcomes [OF rl] have g: "outcomes gen = []" by simp
  show ?thesis
    unfolding pp
    by (simp add: outcomes_append outcomes_Cons outcomes_Nil g rate_limit_outcomes
        validation_logic_outcomes)
qed

lemma sandbox_step_no_exception: "snd (sandbox_step e i problem code) = None"
  by (auto simp: sandbox_step_def split: prod.splits option.splits exn.splits)

lemma sandbox_step_one_outcome:
  "\<exists>r. outcomes (fst (sandbox_step e i problem code)) = [r]
     \<and> (dict_get problem (lit ''test_output'') = PNone \<longrightarrow> r \<noteq> PASS \<and> r \<noteq> FAIL_MISMATCH)"
proof (cases "write_solution e (i + 1) code")
  case (Some x)
  then show ?thesis
    by (cases x) (simp_all add: sandbox_step_def try_body_def outcomes_Cons outcomes_Nil)
next
  case None
  show ?thesis
  proof (cases "run_solution e (i + 1) (input_data_of e (dict_get problem (lit ''test_input''))) 10")
    case (Inl x)
    with None show ?thesis
      by (cases x) (simp_all add: sandbox_step_def try_body_def Let_def outcomes_Cons outcomes_Nil)
  next
    case (Inr oe)
    obtain out err where "oe = (out, err)" by (cases oe)
    with None Inr show ?thesis
      by (simp add: sandbox_step_executed outcomes_Cons outcomes_Nil validation_logic_outcomes)
  qed
qed

lemma after_generation_text:
  assumes "print_text e (extract_code response) = None"
  shows "after_generation e n i problem (PStr response)
    = ([PrintGeneratedHeader (i + 1), PrintGeneratedCode (extract_code response),
        PrintGeneratedFooter] @ fst (sandbox_step e i problem (extract_code response))
        @ rate_limit n i, None)"
  using assms sandbox_step_no_exception [of e i problem "extract_code response"]
  by (cases "sandbox_step e i problem (extract_code response)")
    (simp add: after_generation_def Let_def)

lemma after_generation_outcomes:
  "outcomes (fst (after_generation e n i problem c)) = []
   \<or> (\<exists>r. outcomes (fst (after_generation e n i problem c)) = [r]
        \<and> (dict_get problem (lit ''test_output'') = PNone \<longrightarrow> r \<noteq> PASS \<and> r \<noteq> FAIL_MISMATCH))"
proof (cases c)
  case (PStr response)
  show ?thesis
  proof (cases "print_text e (extract_code response)")
    case None
    from sandbox_step_one_outcome [of e i problem "extract_code response"]
    show ?thesis
      unfolding PStr after_generation_text [OF None]
      by (auto simp: outcomes_append outcomes_Cons outcomes_Nil rate_limit_outcomes)
  next
    case (Some x)
    then show ?thesis
      by (simp add: PStr after_generation_def Let_def outcomes_Cons outcomes_Nil)
  qed
qed (simp_all add: after_generation_def outcomes_Nil)

lemma process_problem_outcomes:
  "outcomes (fst (process_problem e n i p)) = []
   \<or> (\<exists>r. outcomes (fst (process_problem e n i p)) = [r]
        \<and> (\<forall>problem. p = PDict problem \<and> dict_get problem (lit ''test_output'') = PNone
              \<longrightarrow> r \<noteq> PASS \<and> r \<noteq> FAIL_MISMATCH))"
proof (cases p)
  case (PDict problem)
  obtain c gen where rl: "retry_loop e i n (query_of problem) PNone [0..<max_retries] = (c, gen)"
    by (cases "retry_loop e i n (query_of problem) PNone [0..<max_retries]")
  note g = retry_loop_outcomes [OF rl]
  show ?thesis
  proof (cases "c = PNone")
    case True
    with rl g show ?thesis
      by (auto simp: PDict process_problem_def)
  next
    case False
    with g have g0: "outcomes gen = []" by simp
    obtain evs x where ag: "after_generation e n i problem c = (evs, x)"
      by (cases "after_generation e n i problem c")
    have pp: "fst (process_problem e n i p) = gen @ evs"
      using rl False ag by (simp add: PDict process_problem_def)
    from after_generation_outcomes [of e n i problem c] ag
    show ?thesis
      unfolding pp by (auto simp: PDict outcomes_append g0)
  qed
qed (simp_all add: process_problem_def outcomes_Nil)

lemma retry_loop_run_irrelevant:
  "retry_loop (e\<lparr>run_solution := f\<rparr>) i n q c as = retry_loop e i n q c as"
  by (induction as arbitrary: c) (simp_all split: sum.splits)

lemma py_str_run_irrelevant: "py_str (e\<lparr>run_solution := f\<rparr>) = py_str e"
  by (rule ext) (simp add: py_str_def split: pyval.splits)

lemma input_data_of_run_irrelevant: "input_data_of (e\<lparr>run_solution := f\<rparr>) = input_data_of e"
  by (rule ext) (simp add: input_data_of_def py_str_run_irrelevant split: pyval.splits)

lemma validation_logic_run_irrelevant:
  "validation_logic (e\<lparr>run_solution := f\<rparr>) = validation_logic e"
  by (intro ext) (simp add: validation_logic_def Let_def py_str_run_irrelevant)

section \<open>The decision after execution\<close>

text \<open>
  C1.  When the solution of a problem was executed and its standard error is not empty
  after trimming, the one outcome recorded for the problem is \<open>FAIL_RUNTIME_ERROR\<close>,
  whatever standard output holds and whether or not the problem has an expected output:
  the validation logic prints the error and the runtime-error verdict and nothing else.
\<close>

theorem nonempty_stderr_is_runtime_error:
  "(executed e n i problem out err \<and> py_strip err \<noteq> []
      \<longrightarrow> outcomes (fst (process_problem e n i (PDict problem))) = [FAIL_RUNTIME_ERROR])
   \<and> (stderr \<noteq> []
      \<longrightarrow> validation_logic e i problem stdout stderr
            = [PrintStderr (i + 1) stderr, PrintResultRuntimeError])"
  using executed_outcomes [of e n i problem out err] by (simp add: validation_logic_def)

theorem nonempty_stderr_is_runtime_error_witness:
  "executed (example_env (\<lambda>i a. Inr (lit ''print(1)''))
        (\<lambda>k. Inr (lit ''POSITIVE'', lit ''warning''))) 1 0 sign_problem
      (lit ''POSITIVE'') (lit ''warning'')
   \<and> py_strip (lit ''warning'') \<noteq> []
   \<and> dict_get sign_problem (lit ''test_output'') = PStr (lit ''POSITIVE'')
   \<and> outcomes (fst (process_problem (example_env (\<lambda>i a. Inr (lit ''print(1)''))
        (\<lambda>k. Inr (lit ''POSITIVE'', lit ''warning''))) 1 0 (PDict sign_problem))) = [FAIL_RUNTIME_ERROR]
   \<and> lit ''warning'' \<noteq> []
   \<and> validation_logic (example_env (\<lambda>i a. Inr (lit ''print(1)''))
        (\<lambda>k. Inr (lit ''POSITIVE'', lit ''warning''))) 0 sign_problem
        (lit ''POSITIVE'') (lit ''warning'')
      = [PrintStderr (0 + 1) (lit ''warning''), PrintResultRuntimeError]"
proof -
  let ?e = "example_env (\<lambda>i a. Inr (lit ''print(1)''))
        (\<lambda>k. Inr (lit ''POSITIVE'', lit ''warning''))"
  have h1: "executed ?e 1 0 sign_problem (lit ''POSITIVE'') (lit ''warning'')"
    by (simp add: executed_def attempts_upto example_env_def)
  have h2: "py_strip (lit ''warning'') \<noteq> []"
    by (simp add: py_strip_def lit_def is_space_def)
  have h3: "dict_get sign_problem (lit ''test_output'') = PStr (lit ''POSITIVE'')"
    by (simp add: dict_get_def sign_problem_def lit_def)
  have h4: "lit ''warning'' \<noteq> []"
    by (simp add: lit_def)
  from h1 h2 h3 h4 nonempty_stderr_is_runtime_error
    [where e = ?e and n = 1 and i = 0 and problem = sign_problem and out = "lit ''POSITIVE''"
       and err = "lit ''warning''" and stdout = "lit ''POSITIVE''" and stderr = "lit ''warning''"]
  show ?thesis by blast
qed

text \<open>
  C10.  Standard error is stripped before it is tested.  When the solution of a problem
  was executed and its standard error holds whitespace only, the outcome is not
  \<open>FAIL_RUNTIME_ERROR\<close>: it is \<open>SKIPPED_NO_EXPECTED\<close> when the problem has no expected
  output, and otherwise \<open>PASS\<close> or \<open>FAIL_MISMATCH\<close> as the validator decides; and the
  whole iteration is the one of a run in which standard error was empty.
\<close>

theorem blank_stderr_is_no_error:
  "executed e n i problem out err \<and> list_all is_space err
   \<longrightarrow> outcomes (fst (process_problem e n i (PDict problem)))
         = [if dict_get problem (lit ''test_output'') = PNone then SKIPPED_NO_EXPECTED
            else if validate_solution out (py_str e (dict_get problem (lit ''test_output'')))
            then PASS else FAIL_MISMATCH]
       \<and> outcomes (fst (process_problem e n i (PDict problem))) \<noteq> [FAIL_RUNTIME_ERROR]
       \<and> process_problem e n i (PDict problem)
         = process_problem (e\<lparr>run_solution := \<lambda>k input_data timeout. Inr (out, [])\<rparr>) n i (PDict problem)"
proof (intro impI, elim conjE)
  assume ex: "executed e n i problem out err" and sp: "list_all is_space err"
  let ?e' = "e\<lparr>run_solution := \<lambda>k input_data timeout. Inr (out, [])\<rparr>"
  have s: "py_strip err = []" using sp by (rule py_strip_all_space)
  have v: "validate_solution (py_strip out) x = validate_solution out x" for x
    by (simp add: validate_solution_def py_strip_idem)
  have 1: "outcomes (fst (process_problem e n i (PDict problem)))
         = [if dict_get problem (lit ''test_output'') = PNone then SKIPPED_NO_EXPECTED
            else if validate_solution out (py_str e (dict_get problem (lit ''test_output'')))
            then PASS else FAIL_MISMATCH]"
    using executed_outcomes [OF ex] by (simp add: s v)
  have ex': "executed ?e' n i problem out []"
    using ex
    by (simp add: executed_def retry_loop_run_irrelevant split: pyval.splits)
  have s0: "py_strip [] = []" by (simp add: py_strip_def)
  from process_problem_executed [OF ex] process_problem_executed [OF ex']
  have 2: "process_problem e n i (PDict problem) = process_problem ?e' n i (PDict problem)"
    by (auto simp: retry_loop_run_irrelevant input_data_of_run_irrelevant
        validation_logic_run_irrelevant s s0)
  from 1 2 show "outcomes (fst (process_problem e n i (PDict problem)))
         = [if dict_get problem (lit ''test_output'') = PNone then SKIPPED_NO_EXPECTED
            else if validate_solution out (py_str e (dict_get problem (lit ''test_output'')))
            then PASS else FAIL_MISMATCH]
       \<and> outcomes (fst (process_problem e n i (PDict problem))) \<noteq> [FAIL_RUNTIME_ERROR]
       \<and> process_problem e n i (PDict problem) = process_problem ?e' n i (PDict problem)"
    by simp
qed

theorem blank_stderr_is_no_error_witness:
  "executed (example_env (\<lambda>i a. Inr (lit ''print(1)''))
        (\<lambda>k. Inr (lit ''POSITIVE\<newline>'', lit '' \<newline>''))) 1 0 sign_problem
      (lit ''POSITIVE\<newline>'') (lit '' \<newline>'')
   \<and> list_all is_space (lit '' \<newline>'')
   \<and> outcomes (fst (process_problem (example_env (\<lambda>i a. Inr (lit ''print(1)''))
        (\<lambda>k. Inr (lit ''POSITIVE\<newline>'', lit '' \<newline>''))) 1 0 (PDict sign_problem))) = [PASS]"
proof -
  let ?e = "example_env (\<lambda>i a. Inr (lit ''print(1)''))
        (\<lambda>k. Inr (lit ''POSITIVE\<newline>'', lit '' \<newline>''))"
  have h1: "executed ?e 1 0 sign_problem (lit ''POSITIVE\<newline>'') (lit '' \<newline>'')"
    by (simp add: executed_def attempts_upto example_env_def)
  have h2: "list_all is_space (lit '' \<newline>'')"
    by (simp add: lit_def is_space_def)
  have h3: "dict_get sign_problem (lit ''test_output'') = PStr (lit ''POSITIVE'')"
    by (simp add: dict_get_def sign_problem_def lit_def)
  have h4: "validate_solution (lit ''POSITIVE\<newline>'') (lit ''POSITIVE'')"
    by (simp add: validate_solution_def py_strip_def lit_def is_space_def)
  from h1 h2 blank_stderr_is_no_error
    [of ?e 1 0 sign_problem "lit ''POSITIVE\<newline>''" "lit '' \<newline>''"]
  have "outcomes (fst (process_problem ?e 1 0 (PDict sign_problem)))
         = [if dict_get sign_problem (lit ''test_output'') = PNone then SKIPPED_NO_EXPECTED
            else if validate_solution (lit ''POSITIVE\<newline>'')
                  (py_str ?e (dict_get sign_problem (lit ''test_output'')))
            then PASS else FAIL_MISMATCH]"
    by blast
  then have "outcomes (fst (process_problem ?e 1 0 (PDict sign_problem))) = [PASS]"
    by (simp add: h3 h4 py_str_def)
  with h1 h2 show ?thesis by blast
qed

text \<open>
  C2.  A problem without expected output is never validated: its outcome is never \<open>PASS\<close>
  nor \<open>FAIL_MISMATCH\<close>.  Its outcome is \<open>SKIPPED_NO_EXPECTED\<close> when its solution was
  executed and standard error was empty after trimming; when standard error was not
  empty the outcome is \<open>FAIL_RUNTIME_ERROR\<close>, since standard error is tested first.
\<close>

theorem no_expected_output_never_validated:
  "dict_get problem (lit ''test_output'') = PNone \<longrightarrow>
     PASS \<notin> set (outcomes (fst (process_problem e n i (PDict problem))))
     \<and> FAIL_MISMATCH \<notin> set (outcomes (fst (process_problem e n i (PDict problem))))
     \<and> (executed e n i problem out err \<and> py_strip err = []
          \<longrightarrow> outcomes (fst (process_problem e n i (PDict problem))) = [SKIPPED_NO_EXPECTED])
     \<and> (executed e n i problem out err \<and> py_strip err \<noteq> []
          \<longrightarrow> outcomes (fst (process_problem e n i (PDict problem))) = [FAIL_RUNTIME_ERROR])"
proof
  assume a: "dict_get problem (lit ''test_output'') = PNone"
  from process_problem_outcomes [of e n i "PDict problem"] a
  have "outcomes (fst (process_problem e n i (PDict problem))) = []
    \<or> (\<exists>r. outcomes (fst (process_problem e n i (PDict problem))) = [r]
          \<and> r \<noteq> PASS \<and> r \<noteq> FAIL_MISMATCH)"
    by blast
  then have 1: "PASS \<notin> set (outcomes (fst (process_problem e n i (PDict problem))))"
    and 2: "FAIL_MISMATCH \<notin> set (outcomes (fst (process_problem e n i (PDict problem))))"
    by auto
  have 3: "executed e n i problem out err \<and> py_strip err = []
          \<longrightarrow> outcomes (fst (process_problem e n i (PDict problem))) = [SKIPPED_NO_EXPECTED]"
    using executed_outcomes [of e n i problem out err] a by simp
  have 4: "executed e n i problem out err \<and> py_strip err \<noteq> []
          \<longrightarrow> outcomes (fst (process_problem e n i (PDict problem))) = [FAIL_RUNTIME_ERROR]"
    using executed_outcomes [of e n i problem out err] by simp
  from 1 2 3 4 show "PASS \<notin> set (outcomes (fst (process_problem e n i (PDict problem))))
     \<and> FAIL_MISMATCH \<notin> set (outcomes (fst (process_problem e n i (PDict problem))))
     \<and> (executed e n i problem out err \<and> py_strip err = []
          \<longrightarrow> outcomes (fst (process_problem e n i (PDict problem))) = [SKIPPED_NO_EXPECTED])
     \<and> (executed e n i problem out err \<and> py_strip err \<noteq> []
          \<longrightarrow> outcomes (fst (process_problem e n i (PDict problem))) = [FAIL_RUNTIME_ERROR])"
    by blast
qed

theorem no_expected_output_never_validated_witness:
  "dict_get bare_problem (lit ''test_output'') = PNone
   \<and> executed (example_env (\<lambda>i a. Inr (lit ''print(1)'')) (\<lambda>k. Inr (lit ''1\<newline>'', [])))
        1 0 bare_problem (lit ''1\<newline>'') []
   \<and> py_strip [] = []
   \<and> outcomes (fst (process_problem
        (example_env (\<lambda>i a. Inr (lit ''print(1)'')) (\<lambda>k. Inr (lit ''1\<newline>'', [])))
        1 0 (PDict bare_problem))) = [SKIPPED_NO_EXPECTED]
   \<and> executed (example_env (\<lambda>i a. Inr (lit ''print(1)'')) (\<lambda>k. Inr ([], lit ''fail'')))
        1 0 bare_problem [] (lit ''fail'')
   \<and> py_strip (lit ''fail'') \<noteq> []
   \<and> outcomes (fst (process_problem
        (example_env (\<lambda>i a. Inr (lit ''print(1)'')) (\<lambda>k. Inr ([], lit ''fail'')))
        1 0 (PDict bare_problem))) = [FAIL_RUNTIME_ERROR]"
proof -
  let ?e = "example_env (\<lambda>i a. Inr (lit ''print(1)'')) (\<lambda>k. Inr (lit ''1\<newline>'', []))"
  let ?f = "example_env (\<lambda>i a. Inr (lit ''print(1)'')) (\<lambda>k. Inr ([], lit ''fail''))"
  have h1: "dict_get bare_problem (lit ''test_output'') = PNone"
    by (simp add: dict_get_def bare_problem_def lit_def)
  have h2: "executed ?e 1 0 bare_problem (lit ''1\<newline>'') []"
    by (simp add: executed_def attempts_upto example_env_def)
  have h3: "py_strip [] = []"
    by (simp add: py_strip_def)
  have h4: "executed ?f 1 0 bare_problem [] (lit ''fail'')"
    by (simp add: executed_def attempts_upto example_env_def)
  have h5: "py_strip (lit ''fail'') \<noteq> []"
    by (simp add: py_strip_def lit_def is_space_def)
  from h1 h2 h3 h4 h5
    no_expected_output_never_validated [of bare_problem ?e 1 0 "lit ''1\<newline>''" "[]"]
    no_expected_output_never_validated [of bare_problem ?f 1 0 "[]" "lit ''fail''"]
  show ?thesis by blast
qed

theorem no_expected_output_counterexample:
  "bare_problem (lit ''test_output'') = None
   \<and> outcomes (fst (process_problem
        (example_env (\<lambda>i a. Inr (lit ''print(1)'')) (\<lambda>k. Inr ([], lit ''Traceback'')))
        1 0 (PDict bare_problem))) = [FAIL_RUNTIME_ERROR]
   \<and> outcomes (fst (process_problem
        (example_env (\<lambda>i a. Inr (lit ''print(1)'')) (\<lambda>k. Inr ([], lit ''Traceback'')))
        1 0 (PDict bare_problem))) \<noteq> [SKIPPED_NO_EXPECTED]"
  by (simp add: bare_problem_def process_problem_def after_generation_def attempts_upto
      example_env_def query_of_def dict_get_def dict_get_default_def sandbox_step_def try_body_def
      validation_logic_def input_data_of_def rate_limit_def Let_def
      py_strip_def is_space_def lit_def outcomes_Cons outcomes_Nil outcomes_append)

section \<open>The sandbox step\<close>

text \<open>
  C6.  No exception leaves the sandbox step: whatever writing the file and running the
  child do, the \<^verbatim>\<open>try\<close> statement ends normally with exactly one outcome.  A failure to
  write the file and a failure to start the child (\<^verbatim>\<open>IOError\<close>) are reported as such,
  and any other exception as an error of the solution.  The child is run with a timeout
  of 10; when \<^verbatim>\<open>subprocess.run\<close> raises \<^verbatim>\<open>TimeoutExpired\<close>, which it does after it has
  killed a child that exceeded the timeout, the step reports the timeout and nothing
  else: the output captured until then is not printed and no verdict is given.
\<close>

theorem sandbox_step_captures_failures:
  "snd (sandbox_step e i problem code) = None
   \<and> (\<exists>r. outcomes (fst (sandbox_step e i problem code)) = [r])
   \<and> (write_solution e (i + 1) code = Some IOError
        \<longrightarrow> fst (sandbox_step e i problem code)
              = [WriteSolution (i + 1) code, PrintWriteError (i + 1) IOError])
   \<and> (write_solution e (i + 1) code = None
        \<and> run_solution e (i + 1) (input_data_of e (dict_get problem (lit ''test_input''))) 10
            = Inl IOError
        \<longrightarrow> fst (sandbox_step e i problem code)
              = [WriteSolution (i + 1) code, PrintWritten (i + 1),
                 RunSolution (i + 1) (input_data_of e (dict_get problem (lit ''test_input''))) 10,
                 PrintWriteError (i + 1) IOError])
   \<and> (write_solution e (i + 1) code = None
        \<and> run_solution e (i + 1) (input_data_of e (dict_get problem (lit ''test_input''))) 10
            = Inl (TimeoutExpired partial_out partial_err)
        \<longrightarrow> fst (sandbox_step e i problem code)
              = [WriteSolution (i + 1) code, PrintWritten (i + 1),
                 RunSolution (i + 1) (input_data_of e (dict_get problem (lit ''test_input''))) 10,
                 PrintTimedOut (i + 1)]
            \<and> outcomes (fst (sandbox_step e i problem code)) = [EXECUTION_TIMEOUT])
   \<and> (write_solution e (i + 1) code = None
        \<and> run_solution e (i + 1) (input_data_of e (dict_get problem (lit ''test_input''))) 10
            = Inl OtherException
        \<longrightarrow> fst (sandbox_step e i problem code)
              = [WriteSolution (i + 1) code, PrintWritten (i + 1),
                 RunSolution (i + 1) (input_data_of e (dict_get problem (lit ''test_input''))) 10,
                 PrintErrorOccurred (i + 1) OtherException])"
proof -
  have 1: "snd (sandbox_step e i problem code) = None"
    by (rule sandbox_step_no_exception)
  have 2: "\<exists>r. outcomes (fst (sandbox_step e i problem code)) = [r]"
    using sandbox_step_one_outcome [of e i problem code] by blast
  have 3: "write_solution e (i + 1) code = Some IOError
        \<longrightarrow> fst (sandbox_step e i problem code)
              = [WriteSolution (i + 1) code, PrintWriteError (i + 1) IOError]"
    by (simp add: sandbox_step_def try_body_def)
  have 4: "write_solution e (i + 1) code = None
        \<and> run_solution e (i + 1) (input_data_of e (dict_get problem (lit ''test_input''))) 10
            = Inl IOError
        \<longrightarrow> fst (sandbox_step e i problem code)
              = [WriteSolution (i + 1) code, PrintWritten (i + 1),
                 RunSolution (i + 1) (input_data_of e (dict_get problem (lit ''test_input''))) 10,
                 PrintWriteError (i + 1) IOError]"
    by (simp add: sandbox_step_def try_body_def Let_def)
  have 5: "write_solution e (i + 1) code = None
        \<and> run_solution e (i + 1) (input_data_of e (dict_get problem (lit ''test_input''))) 10
            = Inl (TimeoutExpired partial_out partial_err)
        \<longrightarrow> fst (sandbox_step e i problem code)
              = [WriteSolution (i + 1) code, PrintWritten (i + 1),
                 RunSolution (i + 1) (input_data_of e (dict_get problem (lit ''test_input''))) 10,
                 PrintTimedOut (i + 1)]
            \<and> outcomes (fst (sandbox_step e i problem code)) = [EXECUTION_TIMEOUT]"
    by (simp add: sandbox_step_def try_body_def Let_def outcomes_Cons outcomes_Nil)
  have 6: "write_solution e (i + 1) code = None
        \<and> run_solution e (i + 1) (input_data_of e (dict_get problem (lit ''test_input''))) 10
            = Inl OtherException
        \<longrightarrow> fst (sandbox_step e i problem code)
              = [WriteSolution (i + 1) code, PrintWritten (i + 1),
                 RunSolution (i + 1) (input_data_of e (dict_get problem (lit ''test_input''))) 10,
                 PrintErrorOccurred (i + 1) OtherException]"
    by (simp add: sandbox_step_def try_body_def Let_def)
  from 1 2 3 4 5 6 show ?thesis by blast
qed

theorem sandbox_step_captures_failures_witness:
  "run_solution (example_env (\<lambda>i a. Inr (lit ''while True: pass''))
        (\<lambda>k. Inl (TimeoutExpired (lit ''partial'') []))) (0 + 1) (Some (lit ''5'')) 10
        = Inl (TimeoutExpired (lit ''partial'') [])
   \<and> sandbox_step (example_env (\<lambda>i a. Inr (lit ''while True: pass''))
        (\<lambda>k. Inl (TimeoutExpired (lit ''partial'') []))) 0 sign_problem (lit ''while True: pass'')
      = ([WriteSolution 1 (lit ''while True: pass''), PrintWritten 1,
          RunSolution 1 (Some (lit ''5'')) 10, PrintTimedOut 1], None)
   \<and> run_solution (example_env (\<lambda>i a. Inr (lit ''pass'')) (\<lambda>k. Inl IOError))
        (0 + 1) (Some (lit ''5'')) 10 = Inl IOError
   \<and> sandbox_step (example_env (\<lambda>i a. Inr (lit ''pass'')) (\<lambda>k. Inl IOError))
        0 sign_problem (lit ''pass'')
      = ([WriteSolution 1 (lit ''pass''), PrintWritten 1,
          RunSolution 1 (Some (lit ''5'')) 10, PrintWriteError 1 IOError], None)
   \<and> run_solution (example_env (\<lambda>i a. Inr (lit ''pass'')) (\<lambda>k. Inl OtherException))
        (0 + 1) (Some (lit ''5'')) 10 = Inl OtherException
   \<and> sandbox_step (example_env (\<lambda>i a. Inr (lit ''pass'')) (\<lambda>k. Inl OtherException))
        0 sign_problem (lit ''pass'')
      = ([WriteSolution 1 (lit ''pass''), PrintWritten 1,
          RunSolution 1 (Some (lit ''5'')) 10, PrintErrorOccurred 1 OtherException], None)
   \<and> write_solution ((example_env (\<lambda>i a. Inr (lit ''pass'')) (\<lambda>k. Inr ([], [])))
          \<lparr>write_solution := \<lambda>k code. Some IOError\<rparr>) (0 + 1) (lit ''pass'') = Some IOError
   \<and> sandbox_step ((example_env (\<lambda>i a. Inr (lit ''pass'')) (\<lambda>k. Inr ([], [])))
          \<lparr>write_solution := \<lambda>k code. Some IOError\<rparr>) 0 sign_problem (lit ''pass'')
      = ([WriteSolution 1 (lit ''pass''), PrintWriteError 1 IOError], None)"
proof -
  let ?t = "example_env (\<lambda>i a. Inr (lit ''while True: pass''))
        (\<lambda>k. Inl (TimeoutExpired (lit ''partial'') []))"
  let ?s = "example_env (\<lambda>i a. Inr (lit ''pass'')) (\<lambda>k. Inl IOError)"
  let ?o = "example_env (\<lambda>i a. Inr (lit ''pass'')) (\<lambda>k. Inl OtherException)"
  let ?w = "(example_env (\<lambda>i a. Inr (lit ''pass'')) (\<lambda>k. Inr ([], [])))
          \<lparr>write_solution := \<lambda>k code. Some IOError\<rparr>"
  have inp: "input_data_of e (dict_get sign_problem (lit ''test_input'')) = Some (lit ''5'')" for e
    by (simp add: input_data_of_def dict_get_def sign_problem_def py_str_def lit_def)
  have w: "write_solution ?t (0 + 1) c = None" "write_solution ?s (0 + 1) c = None"
    "write_solution ?o (0 + 1) c = None" for c
    by (simp_all add: example_env_def)
  have t: "run_solution ?t (0 + 1) (Some (lit ''5'')) 10 = Inl (TimeoutExpired (lit ''partial'') [])"
    by (simp add: example_env_def)
  have s: "run_solution ?s (0 + 1) (Some (lit ''5'')) 10 = Inl IOError"
    by (simp add: example_env_def)
  have o: "run_solution ?o (0 + 1) (Some (lit ''5'')) 10 = Inl OtherException"
    by (simp add: example_env_def)
  have ww: "write_solution ?w (0 + 1) (lit ''pass'') = Some IOError"
    by (simp add: example_env_def)
  from sandbox_step_captures_failures
    [of ?t 0 sign_problem "lit ''while True: pass''" "lit ''partial''" "[]"] w t
  have 1: "sandbox_step ?t 0 sign_problem (lit ''while True: pass'')
      = ([WriteSolution 1 (lit ''while True: pass''), PrintWritten 1,
          RunSolution 1 (Some (lit ''5'')) 10, PrintTimedOut 1], None)"
    by (simp add: inp prod_eq_iff)
  from sandbox_step_captures_failures [of ?s 0 sign_problem "lit ''pass''"] w s
  have 2: "sandbox_step ?s 0 sign_problem (lit ''pass'')
      = ([WriteSolution 1 (lit ''pass''), PrintWritten 1,
          RunSolution 1 (Some (lit ''5'')) 10, PrintWriteError 1 IOError], None)"
    by (simp add: inp prod_eq_iff)
  from sandbox_step_captures_failures [of ?o 0 sign_problem "lit ''pass''"] w o
  have 3: "sandbox_step ?o 0 sign_problem (lit ''pass'')
      = ([WriteSolution 1 (lit ''pass''), PrintWritten 1,
          RunSolution 1 (Some (lit ''5'')) 10, PrintErrorOccurred 1 OtherException], None)"
    by (simp add: inp prod_eq_iff)
  from sandbox_step_captures_failures [of ?w 0 sign_problem "lit ''pass''"] ww
  have 4: "sandbox_step ?w 0 sign_problem (lit ''pass'')
      = ([WriteSolution 1 (lit ''pass''), PrintWriteError 1 IOError], None)"
    by (simp add: prod_eq_iff)
  from t s o ww 1 2 3 4 show ?thesis by blast
qed

section \<open>Start of the run\<close>

text \<open>
  C8.  Without a command-line argument the run ends at once: two lines, the error and the
  usage, and exit status 1.  With a path that is not a directory the run does not end: the
  loader reports the path and returns no problems, \<^verbatim>\<open>main\<close> goes on over zero problems,
  so nothing is generated or executed, prints the summary and ends with status 0.
\<close>

theorem missing_argument_is_fatal:
  "(length argv < 2 \<longrightarrow> main e argv = (1, [PrintMissingArgument, PrintUsage]))
   \<and> (2 \<le> length argv \<and> \<not> is_dir e (argv ! 1)
      \<longrightarrow> main e argv = (0, [PrintLoading (argv ! 1), PrintNotADirectory (argv ! 1),
             PrintFound 0, PrintEstimated 0, PrintRule, PrintSummary 0]))"
  by (simp add: main_def parse_json_directory_to_dicts_def Let_def)

theorem missing_argument_is_fatal_witness:
  "length [lit ''main.py''] < 2
   \<and> main (example_env (\<lambda>i a. Inl OtherException) (\<lambda>k. Inr ([], []))) [lit ''main.py'']
      = (1, [PrintMissingArgument, PrintUsage])
   \<and> 2 \<le> length [lit ''main.py'', lit ''nowhere'']
   \<and> \<not> is_dir (example_env (\<lambda>i a. Inl OtherException) (\<lambda>k. Inr ([], [])))
          ([lit ''main.py'', lit ''nowhere''] ! 1)
   \<and> fst (main (example_env (\<lambda>i a. Inl OtherException) (\<lambda>k. Inr ([], [])))
        [lit ''main.py'', lit ''nowhere'']) = 0"
proof -
  let ?e = "example_env (\<lambda>i a. Inl OtherException) (\<lambda>k. Inr ([], []))"
  have h1: "length [lit ''main.py''] < 2" by simp
  have h2: "2 \<le> length [lit ''main.py'', lit ''nowhere'']" by simp
  have h3: "\<not> is_dir ?e ([lit ''main.py'', lit ''nowhere''] ! 1)"
    by (simp add: example_env_def lit_def)
  from h1 h2 h3 missing_argument_is_fatal [of "[lit ''main.py'']" ?e]
    missing_argument_is_fatal [of "[lit ''main.py'', lit ''nowhere'']" ?e]
  show ?thesis by simp
qed

theorem invalid_path_counterexample:
  "\<not> is_dir (example_env (\<lambda>i a. Inl OtherException) (\<lambda>k. Inr ([], []))) (lit ''nowhere'')
   \<and> main (example_env (\<lambda>i a. Inl OtherException) (\<lambda>k. Inr ([], [])))
        [lit ''main.py'', lit ''nowhere'']
      = (0, [PrintLoading (lit ''nowhere''), PrintNotADirectory (lit ''nowhere''),
             PrintFound 0, PrintEstimated 0, PrintRule, PrintSummary 0])"
  by (simp add: main_def parse_json_directory_to_dicts_def example_env_def lit_def Let_def)

section \<open>The loop over the problems\<close>

lemma main_loop_Cons:
  "snd (process_problem e n i p) = None \<Longrightarrow>
   main_loop e n i (p # ps)
     = (fst (process_problem e n i p) @ fst (main_loop e n (i + 1) ps),
        snd (main_loop e n (i + 1) ps))"
  by (cases "process_problem e n i p"; cases "main_loop e n (i + 1) ps") simp

lemma main_loop_abort:
  "snd (process_problem e n i p) = Some x \<Longrightarrow>
   main_loop e n i (p # ps) = (fst (process_problem e n i p), Some x)"
  by (cases "process_problem e n i p") simp

lemma retry_loop_text_or_exhausted:
  assumes "\<And>a v. llm_invoke e i a q = Inr v \<Longrightarrow> \<exists>s. v = PStr s"
  shows "(\<exists>s. fst (retry_loop e i n q PNone [0..<max_retries]) = PStr s
            \<and> outcomes (snd (retry_loop e i n q PNone [0..<max_retries])) = [])
       \<or> (fst (retry_loop e i n q PNone [0..<max_retries]) = PNone
            \<and> outcomes (snd (retry_loop e i n q PNone [0..<max_retries])) = [GENERATION_EXHAUSTED])"
proof -
  have t: "\<exists>s. v = PStr s" if "llm_invoke e i a q = Inr v" for a v
    using assms that by blast
  show ?thesis
    unfolding attempts_upto
    by (cases "llm_invoke e i 0 q"; cases "llm_invoke e i 1 q"; cases "llm_invoke e i 2 q")
      (auto simp: max_retries_def outcomes_Cons outcomes_Nil dest: t)
qed

text \<open>
  What holds of an iteration whose problem is a dictionary, when every answer of the
  generation service is a text and the code can be printed: no exception leaves it and it
  records exactly one outcome.
\<close>

lemma process_problem_wellformed:
  assumes "\<And>a v. llm_invoke e i a (query_of problem) = Inr v \<Longrightarrow> \<exists>s. v = PStr s"
    and "\<And>s. print_text e s = None"
  shows "snd (process_problem e n i (PDict problem)) = None
     \<and> (\<exists>r. outcomes (fst (process_problem e n i (PDict problem))) = [r])"
proof -
  obtain c gen where rl: "retry_loop e i n (query_of problem) PNone [0..<max_retries] = (c, gen)"
    by (cases "retry_loop e i n (query_of problem) PNone [0..<max_retries]")
  have "(\<exists>s. fst (retry_loop e i n (query_of problem) PNone [0..<max_retries]) = PStr s
            \<and> outcomes (snd (retry_loop e i n (query_of problem) PNone [0..<max_retries])) = [])
       \<or> (fst (retry_loop e i n (query_of problem) PNone [0..<max_retries]) = PNone
            \<and> outcomes (snd (retry_loop e i n (query_of problem) PNone [0..<max_retries]))
                = [GENERATION_EXHAUSTED])"
    by (rule retry_loop_text_or_exhausted) (rule assms(1))
  with rl consider s where "c = PStr s" "outcomes gen = []"
    | "c = PNone" "outcomes gen = [GENERATION_EXHAUSTED]"
    by auto
  then show ?thesis
  proof cases
    case 1
    from sandbox_step_one_outcome [of e i problem "extract_code s"]
    obtain r where "outcomes (fst (sandbox_step e i problem (extract_code s))) = [r]" by blast
    then show ?thesis
      using rl 1 after_generation_text [where e = e and response = s and n = n and i = i
          and problem = problem, OF assms(2)]
      by (simp add: process_problem_def outcomes_append outcomes_Cons outcomes_Nil
          rate_limit_outcomes)
  next
    case 2
    then show ?thesis using rl by (simp add: process_problem_def)
  qed
qed

lemma main_loop_wellformed:
  assumes "\<And>k a q v. llm_invoke e k a q = Inr v \<Longrightarrow> \<exists>s. v = PStr s"
    and "\<And>s. print_text e s = None"
    and "\<And>p. p \<in> set problems \<Longrightarrow> \<exists>d. p = PDict d"
  shows "snd (main_loop e n i problems) = None
     \<and> length (outcomes (fst (main_loop e n i problems))) = length problems"
  using assms(3)
proof (induction problems arbitrary: i)
  case Nil
  then show ?case by (simp add: outcomes_Nil)
next
  case (Cons p ps)
  then obtain d where p: "p = PDict d" by auto
  from process_problem_wellformed [of e i d n] assms(1,2)
  obtain r where s: "snd (process_problem e n i p) = None"
    and o: "outcomes (fst (process_problem e n i p)) = [r]"
    unfolding p by blast
  from Cons have "snd (main_loop e n (i + 1) ps) = None
     \<and> length (outcomes (fst (main_loop e n (i + 1) ps))) = length ps"
    by simp
  then show ?case
    unfolding main_loop_Cons [OF s] by (simp add: outcomes_append o)
qed

lemma attempts_upto_3: "[0..<3] = [0, 1, 2]"
  by (simp add: upt_rec)

lemmas run_defs =
  main_def parse_json_directory_to_dicts_def process_problem_def after_generation_def
  attempts_upto_3 max_retries_def
  retry_delay_def example_env_def query_of_def dict_get_def dict_get_default_def
  sandbox_step_def try_body_def validation_logic_def input_data_of_def rate_limit_def Let_def
  sign_problem_def bare_problem_def py_str_def validate_solution_def

text \<open>
  A run in which the first problem is given up and the second passes.
\<close>

lemma exhausted_then_pass: "outcomes (snd (main
          (example_env (\<lambda>i a. if i = 0 then Inl OtherException else Inr (lit ''print(1)''))
          (\<lambda>k. Inr (lit ''POSITIVE'', []))) [lit ''main.py'', lit ''problems''])) = [GENERATION_EXHAUSTED, PASS]"
  by (simp add: run_defs outcomes_Cons outcomes_Nil outcomes_append py_strip_def is_space_def lit_def)

text \<open>
  C7.  Three runs over the directory \<^verbatim>\<open>problems\<close> that end in the first of their two
  problems with an exception: the statements between the head of the loop and the
  \<^verbatim>\<open>try\<close> block are enclosed by no \<^verbatim>\<open>try\<close>.  In the first run the first file holds a
  list, and \<^verbatim>\<open>problem.get\<close> raises; in the second the content of the response is a list,
  and \<^verbatim>\<open>code_response.strip()\<close> raises; in the third the code cannot be printed.  Each
  run ends with status 1, without an outcome for either problem, without a call of the
  generation service for the second problem, and without the summary.
\<close>

theorem failure_outside_try_aborts_run:
  "fst (parse_json_directory_to_dicts
     ((example_env (\<lambda>i a. Inr (lit ''print(1)'')) (\<lambda>k. Inr (lit ''POSITIVE'', [])))
        \<lparr>json_load := \<lambda>file_path. if file_path = lit ''problems/a.json''
            then Inr (PList [PAtom 1, PAtom 2]) else Inr (PDict sign_problem)\<rparr>)
     (lit ''problems''))
     = [PList [PAtom 1, PAtom 2], PDict sign_problem]
   \<and> main
     ((example_env (\<lambda>i a. Inr (lit ''print(1)'')) (\<lambda>k. Inr (lit ''POSITIVE'', [])))
        \<lparr>json_load := \<lambda>file_path. if file_path = lit ''problems/a.json''
            then Inr (PList [PAtom 1, PAtom 2]) else Inr (PDict sign_problem)\<rparr>)
     [lit ''main.py'', lit ''problems'']
     = (1, [PrintLoading (lit ''problems''), PrintFound 2, PrintEstimated 60, PrintRule])
   \<and> main
     ((example_env (\<lambda>i a. Inr (lit ''print(1)'')) (\<lambda>k. Inr (lit ''POSITIVE'', [])))
        \<lparr>llm_invoke := \<lambda>i attempt query. Inr (PList [PStr (lit ''print(1)'')])\<rparr>)
     [lit ''main.py'', lit ''problems'']
     = (1, [PrintLoading (lit ''problems''), PrintFound 2, PrintEstimated 60, PrintRule,
            PrintProcessing 1 2 1 3, LlmInvoke 0 0 (PStr (lit ''print sign''))])
   \<and> main
     ((example_env (\<lambda>i a. Inr (lit ''print(1)'')) (\<lambda>k. Inr (lit ''POSITIVE'', [])))
        \<lparr>print_text := \<lambda>s. Some UnicodeEncodeError\<rparr>)
     [lit ''main.py'', lit ''problems'']
     = (1, [PrintLoading (lit ''problems''), PrintFound 2, PrintEstimated 60, PrintRule,
            PrintProcessing 1 2 1 3, LlmInvoke 0 0 (PStr (lit ''print sign'')),
            PrintGeneratedHeader 1])"
proof -
  have 1: "fst (parse_json_directory_to_dicts
     ((example_env (\<lambda>i a. Inr (lit ''print(1)'')) (\<lambda>k. Inr (lit ''POSITIVE'', [])))
        \<lparr>json_load := \<lambda>file_path. if file_path = lit ''problems/a.json''
            then Inr (PList [PAtom 1, PAtom 2]) else Inr (PDict sign_problem)\<rparr>)
     (lit ''problems''))
     = [PList [PAtom 1, PAtom 2], PDict sign_problem]"
    by (simp add: parse_json_directory_to_dicts_def example_env_def lit_def)
  have 2: "main
     ((example_env (\<lambda>i a. Inr (lit ''print(1)'')) (\<lambda>k. Inr (lit ''POSITIVE'', [])))
        \<lparr>json_load := \<lambda>file_path. if file_path = lit ''problems/a.json''
            then Inr (PList [PAtom 1, PAtom 2]) else Inr (PDict sign_problem)\<rparr>)
     [lit ''main.py'', lit ''problems'']
     = (1, [PrintLoading (lit ''problems''), PrintFound 2, PrintEstimated 60, PrintRule])"
    by (simp add: main_def parse_json_directory_to_dicts_def process_problem_def
        example_env_def lit_def Let_def)
  have 3: "main
     ((example_env (\<lambda>i a. Inr (lit ''print(1)'')) (\<lambda>k. Inr (lit ''POSITIVE'', [])))
        \<lparr>llm_invoke := \<lambda>i attempt query. Inr (PList [PStr (lit ''print(1)'')])\<rparr>)
     [lit ''main.py'', lit ''problems'']
     = (1, [PrintLoading (lit ''problems''), PrintFound 2, PrintEstimated 60, PrintRule,
            PrintProcessing 1 2 1 3, LlmInvoke 0 0 (PStr (lit ''print sign''))])"
    by (simp add: run_defs lit_def)
  have 4: "main
     ((example_env (\<lambda>i a. Inr (lit ''print(1)'')) (\<lambda>k. Inr (lit ''POSITIVE'', [])))
        \<lparr>print_text := \<lambda>s. Some UnicodeEncodeError\<rparr>)
     [lit ''main.py'', lit ''problems'']
     = (1, [PrintLoading (lit ''problems''), PrintFound 2, PrintEstimated 60, PrintRule,
            PrintProcessing 1 2 1 3, LlmInvoke 0 0 (PStr (lit ''print sign'')),
            PrintGeneratedHeader 1])"
    by (simp add: run_defs lit_def)
  from 1 2 3 4 show ?thesis by blast
qed

section \<open>The retry controller\<close>

text \<open>
  C4.  For every problem the generation service is called once, twice or three times,
  and the delays of the retry loop lie between the calls: a delay of 30 after the first
  and after the second failed call, none after a call that succeeds and none after the
  third.  When all three calls fail the iteration consists of the three attempts and the
  report that the problem is given up: no file is written, no child is run, no verdict is
  given, and the loop goes on with the next problem.
\<close>

theorem retry_controller_bounded:
  "filter attempt_or_delay (snd (retry_loop e i n q PNone [0..<max_retries]))
     \<in> {[LlmInvoke i 0 q],
        [LlmInvoke i 0 q, Sleep 30, LlmInvoke i 1 q],
        [LlmInvoke i 0 q, Sleep 30, LlmInvoke i 1 q, Sleep 30, LlmInvoke i 2 q]}
   \<and> (llm_invoke e i 0 (query_of problem) = Inl first_err
      \<and> llm_invoke e i 1 (query_of problem) = Inl second_err
      \<and> llm_invoke e i 2 (query_of problem) = Inl third_err
      \<longrightarrow> process_problem e n i (PDict problem)
            = ([PrintProcessing (i + 1) n 1 3, LlmInvoke i 0 (query_of problem),
                PrintApiError 1 first_err, PrintWaitingRetry 30, Sleep 30,
                PrintProcessing (i + 1) n 2 3, LlmInvoke i 1 (query_of problem),
                PrintApiError 2 second_err, PrintWaitingRetry 30, Sleep 30,
                PrintProcessing (i + 1) n 3 3, LlmInvoke i 2 (query_of problem),
                PrintApiError 3 third_err, PrintGiveUp (i + 1) 3], None)
        \<and> outcomes (fst (process_problem e n i (PDict problem))) = [GENERATION_EXHAUSTED]
        \<and> fst (main_loop e n i (PDict problem # rest))
            = fst (process_problem e n i (PDict problem)) @ fst (main_loop e n (i + 1) rest))"
proof -
  have 1: "filter attempt_or_delay (snd (retry_loop e i n q PNone [0..<max_retries]))
     \<in> {[LlmInvoke i 0 q],
        [LlmInvoke i 0 q, Sleep 30, LlmInvoke i 1 q],
        [LlmInvoke i 0 q, Sleep 30, LlmInvoke i 1 q, Sleep 30, LlmInvoke i 2 q]}"
    unfolding attempts_upto
    by (simp add: max_retries_def retry_delay_def split: sum.splits prod.splits)
  have 2: "llm_invoke e i 0 (query_of problem) = Inl first_err
      \<and> llm_invoke e i 1 (query_of problem) = Inl second_err
      \<and> llm_invoke e i 2 (query_of problem) = Inl third_err
      \<longrightarrow> process_problem e n i (PDict problem)
            = ([PrintProcessing (i + 1) n 1 3, LlmInvoke i 0 (query_of problem),
                PrintApiError 1 first_err, PrintWaitingRetry 30, Sleep 30,
                PrintProcessing (i + 1) n 2 3, LlmInvoke i 1 (query_of problem),
                PrintApiError 2 second_err, PrintWaitingRetry 30, Sleep 30,
                PrintProcessing (i + 1) n 3 3, LlmInvoke i 2 (query_of problem),
                PrintApiError 3 third_err, PrintGiveUp (i + 1) 3], None)"
    unfolding process_problem_def attempts_upto
    by (simp add: max_retries_def retry_delay_def Let_def numeral_2_eq_2)
  from 2 have 3: "llm_invoke e i 0 (query_of problem) = Inl first_err
      \<and> llm_invoke e i 1 (query_of problem) = Inl second_err
      \<and> llm_invoke e i 2 (query_of problem) = Inl third_err
      \<longrightarrow> fst (main_loop e n i (PDict problem # rest))
            = fst (process_problem e n i (PDict problem)) @ fst (main_loop e n (i + 1) rest)"
    by (simp add: main_loop_Cons del: main_loop.simps(2))
  from 2 have 4: "llm_invoke e i 0 (query_of problem) = Inl first_err
      \<and> llm_invoke e i 1 (query_of problem) = Inl second_err
      \<and> llm_invoke e i 2 (query_of problem) = Inl third_err
      \<longrightarrow> outcomes (fst (process_problem e n i (PDict problem))) = [GENERATION_EXHAUSTED]"
    by (simp add: outcomes_Cons outcomes_Nil)
  from 1 2 3 4 show ?thesis by blast
qed


theorem retry_controller_bounded_witness:
  "llm_invoke (example_env (\<lambda>i a. Inl OtherException) (\<lambda>k. Inr ([], []))) 0 0
      (query_of sign_problem) = Inl OtherException
   \<and> llm_invoke (example_env (\<lambda>i a. Inl OtherException) (\<lambda>k. Inr ([], []))) 0 1
      (query_of sign_problem) = Inl OtherException
   \<and> llm_invoke (example_env (\<lambda>i a. Inl OtherException) (\<lambda>k. Inr ([], []))) 0 2
      (query_of sign_problem) = Inl OtherException
   \<and> process_problem (example_env (\<lambda>i a. Inl OtherException) (\<lambda>k. Inr ([], []))) 2 0 (PDict sign_problem)
       = ([PrintProcessing (0 + 1) 2 1 3, LlmInvoke 0 0 (query_of sign_problem),
           PrintApiError 1 OtherException, PrintWaitingRetry 30, Sleep 30,
           PrintProcessing (0 + 1) 2 2 3, LlmInvoke 0 1 (query_of sign_problem),
           PrintApiError 2 OtherException, PrintWaitingRetry 30, Sleep 30,
           PrintProcessing (0 + 1) 2 3 3, LlmInvoke 0 2 (query_of sign_problem),
           PrintApiError 3 OtherException, PrintGiveUp (0 + 1) 3], None)"
proof -
  let ?e = "example_env (\<lambda>i a. Inl OtherException) (\<lambda>k. Inr ([], []))"
  have h: "llm_invoke ?e 0 0 (query_of sign_problem) = Inl OtherException"
    "llm_invoke ?e 0 1 (query_of sign_problem) = Inl OtherException"
    "llm_invoke ?e 0 2 (query_of sign_problem) = Inl OtherException"
    by (simp_all add: example_env_def)
  from h retry_controller_bounded
    [where e = ?e and i = 0 and n = 2 and problem = sign_problem and first_err = OtherException
       and second_err = OtherException and third_err = OtherException]
  show ?thesis by blast
qed

section \<open>The delay between problems\<close>

text \<open>
  C5.  A run over the two problems of the directory \<^verbatim>\<open>problems\<close> in which every call of
  the generation service fails: both problems are given up, and the run holds no delay of
  20 at all, although one problem is followed by another.  The \<^verbatim>\<open>continue\<close> that skips a
  problem without a response also skips the rate-limiting block at the end of the loop
  body.  In the same run with a service that answers, the delay of 20 stands between the
  two problems.
\<close>

theorem exhausted_problem_skips_delay:
  "fst (parse_json_directory_to_dicts
          (example_env (\<lambda>i a. Inl OtherException) (\<lambda>k. Inr ([], []))) (lit ''problems''))
     = [PDict sign_problem, PDict sign_problem]
   \<and> filter attempt_or_delay (snd (main
          (example_env (\<lambda>i a. Inl OtherException) (\<lambda>k. Inr ([], [])))
          [lit ''main.py'', lit ''problems'']))
     = [LlmInvoke 0 0 (PStr (lit ''print sign'')), Sleep 30,
        LlmInvoke 0 1 (PStr (lit ''print sign'')), Sleep 30,
        LlmInvoke 0 2 (PStr (lit ''print sign'')),
        LlmInvoke 1 0 (PStr (lit ''print sign'')), Sleep 30,
        LlmInvoke 1 1 (PStr (lit ''print sign'')), Sleep 30,
        LlmInvoke 1 2 (PStr (lit ''print sign''))]
   \<and> filter attempt_or_delay (snd (main
          (example_env (\<lambda>i a. Inr (lit ''print(1)'')) (\<lambda>k. Inr (lit ''POSITIVE'', [])))
          [lit ''main.py'', lit ''problems'']))
     = [LlmInvoke 0 0 (PStr (lit ''print sign'')), Sleep 20,
        LlmInvoke 1 0 (PStr (lit ''print sign''))]"
proof -
  have 1: "fst (parse_json_directory_to_dicts
          (example_env (\<lambda>i a. Inl OtherException) (\<lambda>k. Inr ([], []))) (lit ''problems''))
     = [PDict sign_problem, PDict sign_problem]"
    by (simp add: parse_json_directory_to_dicts_def example_env_def)
  have 2: "filter attempt_or_delay (snd (main
          (example_env (\<lambda>i a. Inl OtherException) (\<lambda>k. Inr ([], [])))
          [lit ''main.py'', lit ''problems'']))
     = [LlmInvoke 0 0 (PStr (lit ''print sign'')), Sleep 30,
        LlmInvoke 0 1 (PStr (lit ''print sign'')), Sleep 30,
        LlmInvoke 0 2 (PStr (lit ''print sign'')),
        LlmInvoke 1 0 (PStr (lit ''print sign'')), Sleep 30,
        LlmInvoke 1 1 (PStr (lit ''print sign'')), Sleep 30,
        LlmInvoke 1 2 (PStr (lit ''print sign''))]"
    by (simp add: run_defs lit_def)
  have 3: "filter attempt_or_delay (snd (main
          (example_env (\<lambda>i a. Inr (lit ''print(1)'')) (\<lambda>k. Inr (lit ''POSITIVE'', [])))
          [lit ''main.py'', lit ''problems'']))
     = [LlmInvoke 0 0 (PStr (lit ''print sign'')), Sleep 20,
        LlmInvoke 1 0 (PStr (lit ''print sign''))]"
    by (simp add: run_defs py_strip_def is_space_def lit_def)
  from 1 2 3 show ?thesis by blast
qed

end
